theory Spec2Isabelle
  imports Complex_Main
begin

section \<open>Properties, the simulation store and errors\<close>

text \<open>
  The tasks of \<^verbatim>\<open>jsbgym_m/task_advanced.py\<close> read and write a property store (the
  \<^verbatim>\<open>Simulation\<close> object) through \<^verbatim>\<open>sim[prop]\<close>. Keys are property objects; the ones
  the two source files mention are the constructors below. Python floats are finite
  real numbers: no NaN and no infinities. Rounding is modelled where it decides a result
  that is then compared or converted to an integer: in the product of the constructor
  and in the arithmetic of \<^verbatim>\<open>reduce_reflex_angle_deg\<close>. Elsewhere the arithmetic is that
  of the real numbers.
\<close>

datatype property =
    ecef_x_ft | ecef_y_ft | ecef_z_ft
  | roll_rad | sideslip_deg | v_down_fps | u_fps | altitude_sl_ft
  | aileron_cmd | elevator_cmd | rudder_cmd
  | initial_u_fps | initial_v_fps | initial_w_fps
  | initial_p_radps | initial_q_radps | initial_r_radps
  | initial_roc_fpm | initial_heading_deg
  | target_Xposition | target_Yposition
  | position_error_mt | altitude_error_ft
  | steps_left
  | last_agent_reward | last_assessment_reward
  | other_property string

type_synonym simulation = "property \<Rightarrow> real"

datatype error = ValueError string | AttributeError string | IndexError

section \<open>Floating-point arithmetic\<close>

text \<open>
  A Python float is an IEEE 754 binary64 number: 53 significant bits, exponents from
  \<open>-1022\<close> to 1023, subnormal numbers below. An arithmetic operation returns the exact
  result rounded to the nearest such number, a tie going to the one with the even last
  bit. \<open>double_round\<close> is that rounding on the real line, with the exponent unbounded
  above: results beyond the largest finite double, which Python makes infinite, are
  outside the model.
\<close>

definition round_half_even :: "real \<Rightarrow> int" where
  "round_half_even y =
     (let f = \<lfloor>y\<rfloor>; d = y - of_int f
      in if d < 1 / 2 then f
         else if 1 / 2 < d then f + 1
         else if even f then f else f + 1)"

definition double_exponent :: "real \<Rightarrow> int" where
  "double_exponent x = max \<lfloor>log 2 \<bar>x\<bar>\<rfloor> (- 1022)"

definition double_round :: "real \<Rightarrow> real" where
  "double_round x =
     (if x = 0 then 0
      else (let q = 2 powi (double_exponent x - 52)
            in of_int (round_half_even (x / q)) * q))"

definition is_double :: "real \<Rightarrow> bool" where
  "is_double x = (double_round x = x \<and> \<bar>x\<bar> < 2 powi 1024)"

text \<open>Python's \<^verbatim>\<open>*\<close> on two floats, and \<^verbatim>\<open>math.ceil\<close> on a finite float.\<close>

definition float_mul :: "real \<Rightarrow> real \<Rightarrow> real" where
  "float_mul a b = double_round (a * b)"

definition math_ceil :: "real \<Rightarrow> int" where
  "math_ceil x = \<lceil>x\<rceil>"

text \<open>
  The C function \<^verbatim>\<open>fmod\<close>: the remainder of the division truncated towards zero. It
  is exact, so it is not rounded.
\<close>

definition fmod :: "real \<Rightarrow> real \<Rightarrow> real" where
  "fmod x y = x - y * of_int (if 0 \<le> x / y then \<lfloor>x / y\<rfloor> else \<lceil>x / y\<rceil>)"

text \<open>
  Python's \<^verbatim>\<open>%\<close> on two floats: \<^verbatim>\<open>fmod\<close>, and when the remainder is not zero and its
  sign is not that of the divisor, the divisor is added, which is a float addition. A
  zero remainder takes the sign of the divisor. The only divisor in the source is the
  constant 360, so the \<^verbatim>\<open>ZeroDivisionError\<close> of a zero divisor has no branch.
\<close>

definition py_mod :: "real \<Rightarrow> real \<Rightarrow> real" where
  "py_mod a b =
     (let m = fmod a b
      in if m \<noteq> 0 then (if (b < 0) \<noteq> (m < 0) then double_round (m + b) else m)
         else 0)"

text \<open>
  Modelled from the spec: \<^verbatim>\<open>BoundedProperty\<close> is declared in \<^verbatim>\<open>jsbgym_m/properties.py\<close>,
  which is not among the source files; the spec describes it as a property with an
  inclusive numeric range \<^verbatim>\<open>[min, max]\<close>.
\<close>

datatype bounded_property =
  BoundedProperty (prop_name: string) (description: string) (min_value: real) (max_value: real)

text \<open>
  Modelled from the spec: the reward value type of \<^verbatim>\<open>jsbgym_m/rewards.py\<close> is not among
  the source files; the spec describes a reward as the pair of an agent reward and an
  assessment reward. \<^verbatim>\<open>RewardStub(a, b)\<close> builds that pair.
\<close>

datatype reward = RewardStub (agent_reward: real) (assessment_reward: real)

text \<open>
  Modelled from the spec: a reward component of \<^verbatim>\<open>jsbgym_m/rewards.py\<close> is an immutable
  value with the six fields the constructor calls of the source pass by keyword.
\<close>

datatype reward_component =
  AsymptoticErrorComponent
    (component_name: string) (component_prop: property)
    (component_state_variables: "property list")
    (component_target: real) (is_potential_based: bool) (scaling_factor: real)

text \<open>
  Modelled from the spec: an assessor of \<^verbatim>\<open>jsbgym_m/assessors.py\<close> holds an ordered tuple
  of base components, an ordered tuple of shaping components and the
  \<^verbatim>\<open>positive_rewards\<close> flag.
\<close>

datatype assessor =
  AssessorImpl
    (base_components: "reward_component list")
    (potential_components: "reward_component list")
    (assessor_positive_rewards: bool)

text \<open>
  Modelled from the spec: the shaping enumeration of \<^verbatim>\<open>jsbgym_m/tasks.py\<close>. Its three
  members are the ones \<^verbatim>\<open>utils.get_env_id_kwargs_map\<close> names; the same function also
  passes the plain strings \<^verbatim>\<open>stage1\<close> .. \<^verbatim>\<open>stage10\<close> as a shaping value, which
  are no members of the enumeration.
\<close>

datatype shaping = STANDARD | EXTRA | EXTRA_SEQUENTIAL | stage string

fun shaping_str :: "shaping \<Rightarrow> string" where
  "shaping_str STANDARD = ''Shaping.STANDARD''"
| "shaping_str EXTRA = ''Shaping.EXTRA''"
| "shaping_str EXTRA_SEQUENTIAL = ''Shaping.EXTRA_SEQUENTIAL''"
| "shaping_str (stage s) = s"

record aircraft =
  aircraft_name :: string
  get_cruise_speed_fps :: real

section \<open>TrajectoryTask\<close>

subsection \<open>Class constants\<close>

definition TARGET_xPOSITION_FT :: real where "TARGET_xPOSITION_FT = 2000"
definition TARGET_yPOSITION_FT :: real where "TARGET_yPOSITION_FT = -8000"
definition TARGET_zPOSITION_FT :: real where "TARGET_zPOSITION_FT = 0"
definition THROTTLE_CMD :: real where "THROTTLE_CMD = 6 / 10"
definition MIXTURE_CMD :: real where "MIXTURE_CMD = 8 / 10"
definition INITIAL_HEADING_DEG :: real where "INITIAL_HEADING_DEG = 270"
definition ALTITUDE_SCALING_FT :: real where "ALTITUDE_SCALING_FT = 100"
definition POSITION_SCALING_MT :: real where "POSITION_SCALING_MT = 5000"
definition ROLL_ERROR_SCALING_RAD :: real where "ROLL_ERROR_SCALING_RAD = 15 / 100"
definition SIDESLIP_ERROR_SCALING_DEG :: real where "SIDESLIP_ERROR_SCALING_DEG = 3"
definition MIN_STATE_QUALITY :: real where "MIN_STATE_QUALITY = 0"
definition MAX_ALTITUDE_DEVIATION_FT :: real where "MAX_ALTITUDE_DEVIATION_FT = 1000"
definition NAVIGATION_TOLERANCE :: real where "NAVIGATION_TOLERANCE = 50"

definition action_variables :: "property list" where
  "action_variables = [aileron_cmd, elevator_cmd, rudder_cmd]"

subsection \<open>The task object\<close>

text \<open>
  The attributes of a \<^verbatim>\<open>TrajectoryTask\<close> instance. \<^verbatim>\<open>steps_left_max\<close> is the
  \<^verbatim>\<open>max\<close> of the bounded property \<^verbatim>\<open>self.steps_left\<close>; \<^verbatim>\<open>math.ceil\<close> makes it an
  integer. \<^verbatim>\<open>base_state_variables\<close> and \<^verbatim>\<open>base_initial_conditions\<close> are inherited from
  \<^verbatim>\<open>FlightTask\<close> (in \<^verbatim>\<open>jsbgym_m/tasks.py\<close>, not among the source files) and are taken as
  given. \<^verbatim>\<open>assessor\<close> is set by the constructor of \<^verbatim>\<open>FlightTask\<close>;
  \<^verbatim>\<open>init_ecef_position\<close> does not exist before the first episode starts.
\<close>

record trajectory_task =
  max_time_s :: real
  steps_left_max :: int
  task_aircraft :: aircraft
  base_state_variables :: "property list"
  base_initial_conditions :: "property \<rightharpoonup> real"
  extra_state_variables :: "property list"
  state_variables :: "property list"
  positive_rewards :: bool
  task_assessor :: "assessor option"
  init_ecef_position :: "real list option"

definition make_base_reward_components :: "trajectory_task \<Rightarrow> reward_component list" where
  "make_base_reward_components self =
     [AsymptoticErrorComponent ''altitude_error'' altitude_error_ft (state_variables self)
        0 False ALTITUDE_SCALING_FT,
      AsymptoticErrorComponent ''position_error'' position_error_mt (state_variables self)
        0 False POSITION_SCALING_MT]"

definition select_assessor ::
  "trajectory_task \<Rightarrow> reward_component list \<Rightarrow> reward_component list \<Rightarrow> shaping
     \<Rightarrow> error + assessor" where
  "select_assessor self base_comps shaping_comps shaping_mode =
     (if shaping_mode = STANDARD then
        Inr (AssessorImpl base_comps shaping_comps (positive_rewards self))
      else
        (let wings_level =
               AsymptoticErrorComponent ''wings_level'' roll_rad (state_variables self)
                 0 True ROLL_ERROR_SCALING_RAD;
             no_sideslip =
               AsymptoticErrorComponent ''no_sideslip'' sideslip_deg (state_variables self)
                 0 True SIDESLIP_ERROR_SCALING_DEG;
             potential_based_components = [wings_level, no_sideslip]
         in if shaping_mode = EXTRA then
              Inr (AssessorImpl base_comps potential_based_components (positive_rewards self))
            else
              Inl (ValueError (''Unsupported shaping type: '' @ shaping_str shaping_mode))))"

definition make_assessor :: "trajectory_task \<Rightarrow> shaping \<Rightarrow> error + assessor" where
  "make_assessor self shaping_mode =
     (let base_comps = make_base_reward_components self;
          shaping_comps = []
      in select_assessor self base_comps shaping_comps shaping_mode)"

text \<open>
  The constructor. The two inherited class attributes are passed in; the call of the
  parent constructor stores the assessor. A \<^verbatim>\<open>ValueError\<close> of \<^verbatim>\<open>make_assessor\<close>
  leaves no task object. The number of steps is \<^verbatim>\<open>math.ceil\<close> of the float product,
  that is of the rounded product.
\<close>

definition TrajectoryTask_init ::
  "property list \<Rightarrow> (property \<rightharpoonup> real) \<Rightarrow> shaping \<Rightarrow> real \<Rightarrow> aircraft \<Rightarrow> real \<Rightarrow> bool
     \<Rightarrow> error + trajectory_task" where
  "TrajectoryTask_init base_vars base_ics shaping_type step_frequency_hz ac episode_time_s
       pos_rewards =
     (let episode_steps = math_ceil (float_mul episode_time_s step_frequency_hz);
          extra_vars = [altitude_error_ft, position_error_mt, sideslip_deg, v_down_fps];
          self = \<lparr> max_time_s = episode_time_s,
                   steps_left_max = episode_steps,
                   task_aircraft = ac,
                   base_state_variables = base_vars,
                   base_initial_conditions = base_ics,
                   extra_state_variables = extra_vars,
                   state_variables = base_vars @ action_variables @ extra_vars,
                   positive_rewards = pos_rewards,
                   task_assessor = None,
                   init_ecef_position = None \<rparr>
      in case make_assessor self shaping_type of
           Inl e \<Rightarrow> Inl e
         | Inr a \<Rightarrow> Inr (self\<lparr>task_assessor := Some a\<rparr>))"

subsection \<open>Initial conditions\<close>

definition extra_conditions :: "trajectory_task \<Rightarrow> (property \<rightharpoonup> real)" where
  "extra_conditions self =
     [initial_u_fps \<mapsto> get_cruise_speed_fps (task_aircraft self),
      initial_v_fps \<mapsto> 0,
      initial_w_fps \<mapsto> 0,
      initial_p_radps \<mapsto> 0,
      initial_q_radps \<mapsto> 0,
      initial_r_radps \<mapsto> 0,
      initial_roc_fpm \<mapsto> 0,
      initial_heading_deg \<mapsto> INITIAL_HEADING_DEG]"

definition get_initial_conditions :: "trajectory_task \<Rightarrow> (property \<rightharpoonup> real)" where
  "get_initial_conditions self = base_initial_conditions self ++ extra_conditions self"

subsection \<open>Target position\<close>

text \<open>
  \<^verbatim>\<open>self.init_ecef_position[i]\<close>: an \<^verbatim>\<open>AttributeError\<close> while the attribute does not
  exist, an \<^verbatim>\<open>IndexError\<close> beyond the end of the list.
\<close>

definition init_ecef_position_at :: "trajectory_task \<Rightarrow> nat \<Rightarrow> error + real" where
  "init_ecef_position_at self i =
     (case init_ecef_position self of
        None \<Rightarrow> Inl (AttributeError ''init_ecef_position'')
      | Some xs \<Rightarrow> if i < length xs then Inr (xs ! i) else Inl IndexError)"

definition get_target_position :: "trajectory_task \<Rightarrow> string \<Rightarrow> error + real" where
  "get_target_position self flag =
     (if flag = ''x'' then
        (case init_ecef_position_at self 0 of
           Inl e \<Rightarrow> Inl e | Inr v \<Rightarrow> Inr (TARGET_xPOSITION_FT + v))
      else if flag = ''y'' then
        (case init_ecef_position_at self 1 of
           Inl e \<Rightarrow> Inl e | Inr v \<Rightarrow> Inr (TARGET_yPOSITION_FT + v))
      else if flag = ''z'' then
        (case init_ecef_position_at self 2 of
           Inl e \<Rightarrow> Inl e | Inr v \<Rightarrow> Inr (TARGET_zPOSITION_FT + v))
      else Inl (ValueError (''Unsupported flag in get target position: '' @ flag)))"

subsection \<open>Per-step update of the custom properties\<close>

text \<open>
  Modelled from the spec: \<^verbatim>\<open>prp.Vector2\<close> is declared in \<^verbatim>\<open>jsbgym_m/properties.py\<close>,
  which is not among the source files. The spec gives the position error as the
  Euclidean norm of the 2D horizontal offset, so subtraction is componentwise and
  \<^verbatim>\<open>Norm\<close> is the Euclidean norm.
\<close>

datatype vector2 = Vector2 real real

fun vector2_sub :: "vector2 \<Rightarrow> vector2 \<Rightarrow> vector2" where
  "vector2_sub (Vector2 a b) (Vector2 c d) = Vector2 (a - c) (b - d)"

fun Norm :: "vector2 \<Rightarrow> real" where
  "Norm (Vector2 a b) = sqrt (a\<^sup>2 + b\<^sup>2)"

definition update_position_error :: "trajectory_task \<Rightarrow> simulation \<Rightarrow> simulation" where
  "update_position_error self sim =
     (let position = Vector2 (sim ecef_x_ft) (sim ecef_y_ft);
          target_position = Vector2 (sim target_Xposition) (sim target_Yposition);
          error_mt = Norm (vector2_sub position target_position)
      in sim(position_error_mt := error_mt))"

definition update_altitude_error :: "trajectory_task \<Rightarrow> simulation \<Rightarrow> error + simulation" where
  "update_altitude_error self sim =
     (let z_position = sim ecef_z_ft
      in case get_target_position self ''z'' of
           Inl e \<Rightarrow> Inl e
         | Inr target_z_ft \<Rightarrow> Inr (sim(altitude_error_ft := z_position - target_z_ft)))"

definition decrement_steps_left :: "trajectory_task \<Rightarrow> simulation \<Rightarrow> simulation" where
  "decrement_steps_left self sim = sim(steps_left := sim steps_left - 1)"

definition update_custom_properties :: "trajectory_task \<Rightarrow> simulation \<Rightarrow> error + simulation" where
  "update_custom_properties self sim =
     (case update_altitude_error self (update_position_error self sim) of
        Inl e \<Rightarrow> Inl e
      | Inr sim' \<Rightarrow> Inr (decrement_steps_left self sim'))"

subsection \<open>Termination and the terminal reward\<close>

definition altitude_out_of_bounds :: "trajectory_task \<Rightarrow> simulation \<Rightarrow> bool" where
  "altitude_out_of_bounds self sim = (\<bar>sim altitude_error_ft\<bar> > MAX_ALTITUDE_DEVIATION_FT)"

definition arrive_at_navigation_point :: "trajectory_task \<Rightarrow> simulation \<Rightarrow> bool" where
  "arrive_at_navigation_point self sim = (sim position_error_mt < NAVIGATION_TOLERANCE)"

definition is_terminal :: "trajectory_task \<Rightarrow> simulation \<Rightarrow> bool" where
  "is_terminal self sim =
     (let terminal_step = (sim steps_left \<le> 0);
          state_quality = sim last_assessment_reward;
          state_out_of_bounds = (state_quality < MIN_STATE_QUALITY)
      in terminal_step \<or> state_out_of_bounds \<or> altitude_out_of_bounds self sim
           \<or> arrive_at_navigation_point self sim)"

definition get_out_of_bounds_reward :: "trajectory_task \<Rightarrow> simulation \<Rightarrow> reward" where
  "get_out_of_bounds_reward self sim =
     (let reward_scalar = (1 + sim steps_left) * (- 1)
      in RewardStub reward_scalar reward_scalar)"

definition reward_terminal_override :: "trajectory_task \<Rightarrow> reward \<Rightarrow> simulation \<Rightarrow> reward" where
  "reward_terminal_override self rew sim =
     (if altitude_out_of_bounds self sim \<and> \<not> positive_rewards self
      then get_out_of_bounds_reward self sim
      else rew)"

subsection \<open>Episode start\<close>

text \<open>
  \<^verbatim>\<open>_new_episode_init\<close> first calls the method of the same name of \<^verbatim>\<open>FlightTask\<close> and
  \<^verbatim>\<open>sim.set_throttle_mixture_controls\<close>. Neither is among the source files; both act on
  the simulation only and are parameters here.
\<close>

record collaborators =
  FlightTask_new_episode_init :: "simulation \<Rightarrow> simulation"
  set_throttle_mixture_controls :: "real \<Rightarrow> real \<Rightarrow> simulation \<Rightarrow> simulation"

definition new_episode_init ::
  "collaborators \<Rightarrow> trajectory_task \<Rightarrow> simulation \<Rightarrow> error + (trajectory_task \<times> simulation)" where
  "new_episode_init env self sim =
     (let sim1 = FlightTask_new_episode_init env sim;
          sim2 = set_throttle_mixture_controls env THROTTLE_CMD MIXTURE_CMD sim1;
          sim3 = sim2(steps_left := of_int (steps_left_max self));
          self' = self\<lparr>init_ecef_position :=
                    Some [sim3 ecef_x_ft, sim3 ecef_y_ft, sim3 ecef_z_ft]\<rparr>
      in case get_target_position self' ''x'' of
           Inl e \<Rightarrow> Inl e
         | Inr tx \<Rightarrow>
             (case get_target_position self' ''y'' of
                Inl e \<Rightarrow> Inl e
              | Inr ty \<Rightarrow>
                  Inr (self', sim3(target_Xposition := tx, target_Yposition := ty))))"

subsection \<open>A run of steps\<close>

text \<open>
  Modelled from the spec: the step entry point of \<^verbatim>\<open>FlightTask\<close> and the simulation
  object are not among the source files. By the spec, in every step the simulation
  first integrates the physics and the task then runs its update hook. The integration
  is modelled as replacing the value of every property by that of an arbitrary new
  state \<open>w\<close>, except the five properties that \<^verbatim>\<open>TrajectoryTask\<close> itself declares, which
  the engine does not know. A run of steps is given by the list of these states.
\<close>

definition declared_by_task :: "property \<Rightarrow> bool" where
  "declared_by_task p =
     (p = target_Xposition \<or> p = target_Yposition \<or> p = position_error_mt
        \<or> p = altitude_error_ft \<or> p = steps_left)"

definition sim_run :: "simulation \<Rightarrow> simulation \<Rightarrow> simulation" where
  "sim_run engine_state sim = (\<lambda>p. if declared_by_task p then sim p else engine_state p)"

fun task_steps :: "trajectory_task \<Rightarrow> simulation list \<Rightarrow> simulation \<Rightarrow> error + simulation" where
  "task_steps self [] sim = Inr sim"
| "task_steps self (w # ws) sim =
     (case update_custom_properties self (sim_run w sim) of
        Inl e \<Rightarrow> Inl e
      | Inr sim' \<Rightarrow> task_steps self ws sim')"

section \<open>TurnHeadingControlTask\<close>

text \<open>
  \<^verbatim>\<open>random.uniform(a, b)\<close> of the Python standard library returns
  \<^verbatim>\<open>a + (b - a) * random()\<close>, where \<^verbatim>\<open>random()\<close> draws from the half-open interval
  from 0 to 1. The draw is the argument \<open>u\<close>.
\<close>

definition uniform :: "real \<Rightarrow> real \<Rightarrow> real \<Rightarrow> real" where
  "uniform a b u = a + (b - a) * u"

text \<open>
  The parent's \<^verbatim>\<open>get_initial_conditions\<close> (of \<^verbatim>\<open>HeadingControlTask\<close>, in
  \<^verbatim>\<open>jsbgym_m/tasks.py\<close>) and the bounded property \<^verbatim>\<open>prp.heading_deg\<close> are not among the
  source files; the mapping the parent returns and the property are parameters.
\<close>

definition TurnHeadingControlTask_get_initial_conditions ::
  "(property \<rightharpoonup> real) \<Rightarrow> bounded_property \<Rightarrow> real \<Rightarrow> (property \<rightharpoonup> real)" where
  "TurnHeadingControlTask_get_initial_conditions super_initial_conditions heading_deg u =
     (let initial_conditions = super_initial_conditions;
          random_heading = uniform (min_value heading_deg) (max_value heading_deg) u
      in initial_conditions(initial_heading_deg \<mapsto> random_heading))"

section \<open>Angle reduction\<close>

text \<open>
  The subtraction of 360 is a float subtraction; the comparison with 180 is exact.
\<close>

definition reduce_reflex_angle_deg :: "real \<Rightarrow> real" where
  "reduce_reflex_angle_deg angle =
     (let new_angle = py_mod angle 360
      in if new_angle > 180 then double_round (new_angle - 360) else new_angle)"

section \<open>Concrete instances\<close>

text \<open>
  The simulation as \<^verbatim>\<open>_new_episode_init\<close> has it when it reads the aircraft's
  position: after the two calls into the collaborators and the reset of
  \<^verbatim>\<open>steps_left\<close>.
\<close>

definition post_init_sim :: "collaborators \<Rightarrow> trajectory_task \<Rightarrow> simulation \<Rightarrow> simulation" where
  "post_init_sim env self sim =
     (set_throttle_mixture_controls env THROTTLE_CMD MIXTURE_CMD
        (FlightTask_new_episode_init env sim))(steps_left := of_int (steps_left_max self))"

text \<open>
  A task built with \<^verbatim>\<open>episode_time_s = 60\<close>, \<^verbatim>\<open>step_frequency_hz = 5\<close> and
  \<^verbatim>\<open>positive_rewards = False\<close>, collaborators that store a reward of 1 and the two engine
  commands, and a simulation whose aircraft is at \<open>(100, 200, 300)\<close>.
\<close>

definition demo_aircraft :: aircraft where
  "demo_aircraft = \<lparr> aircraft_name = ''c172'', get_cruise_speed_fps = 200 \<rparr>"

definition demo_base_initial_conditions :: "property \<rightharpoonup> real" where
  "demo_base_initial_conditions =
     [other_property ''ic/h-sl-ft'' \<mapsto> 5000, initial_u_fps \<mapsto> 1, initial_heading_deg \<mapsto> 90]"

definition demo_state_variables :: "property list" where
  "demo_state_variables =
     [u_fps, altitude_sl_ft] @ action_variables
       @ [altitude_error_ft, position_error_mt, sideslip_deg, v_down_fps]"

definition demo_task :: trajectory_task where
  "demo_task =
     \<lparr> max_time_s = 60, steps_left_max = 300, task_aircraft = demo_aircraft,
       base_state_variables = [u_fps, altitude_sl_ft],
       base_initial_conditions = demo_base_initial_conditions,
       extra_state_variables = [altitude_error_ft, position_error_mt, sideslip_deg, v_down_fps],
       state_variables = demo_state_variables,
       positive_rewards = False,
       task_assessor = Some (AssessorImpl
          [AsymptoticErrorComponent ''altitude_error'' altitude_error_ft demo_state_variables
             0 False ALTITUDE_SCALING_FT,
           AsymptoticErrorComponent ''position_error'' position_error_mt demo_state_variables
             0 False POSITION_SCALING_MT] [] False),
       init_ecef_position = None \<rparr>"

definition demo_env :: collaborators where
  "demo_env =
     \<lparr> FlightTask_new_episode_init =
         (\<lambda>sim. sim(last_agent_reward := 1, last_assessment_reward := 1)),
       set_throttle_mixture_controls =
         (\<lambda>throttle mixture sim.
            sim(other_property ''fcs/throttle-cmd-norm'' := throttle,
                other_property ''fcs/mixture-cmd-norm'' := mixture)) \<rparr>"

definition demo_sim :: simulation where
  "demo_sim =
     (\<lambda>p. 0)(ecef_x_ft := 100, ecef_y_ft := 200, ecef_z_ft := 300, steps_left := 120,
            last_assessment_reward := 1 / 2, position_error_mt := 8000,
            altitude_error_ft := 10)"

section \<open>Auxiliary facts\<close>

subsection \<open>Rounding to a double\<close>

lemma round_half_even_of_int: "round_half_even (of_int n) = n"
  by (simp add: round_half_even_def)

lemma round_half_even_le: "y \<le> of_int N \<Longrightarrow> round_half_even y \<le> N"
  unfolding round_half_even_def Let_def
  by (auto; linarith)

lemma round_half_even_ge: "of_int N \<le> y \<Longrightarrow> N \<le> round_half_even y"
  unfolding round_half_even_def Let_def
  by (auto; linarith)

lemma round_half_even_error: "\<bar>of_int (round_half_even y) - y\<bar> \<le> 1 / 2"
  unfolding round_half_even_def Let_def
  by (auto; linarith)

lemma pow2_add: "(2::real) powi (a + b) = 2 powi a * 2 powi b"
  by (simp add: power_int_add)

lemma pow2_add_nat: "(2::real) powi (a + int d) = 2 powi a * 2 ^ d"
  by (simp add: power_int_add)

lemma floor_log2_bounds:
  assumes "x \<noteq> 0"
  shows "2 powi \<lfloor>log 2 \<bar>x\<bar>\<rfloor> \<le> \<bar>x\<bar>" and "\<bar>x\<bar> < 2 powi (\<lfloor>log 2 \<bar>x\<bar>\<rfloor> + 1)"
proof -
  have pos: "0 < \<bar>x\<bar>" using assms by simp
  have "2 powr (of_int \<lfloor>log 2 \<bar>x\<bar>\<rfloor>) \<le> \<bar>x\<bar>
          \<and> \<bar>x\<bar> < 2 powr (of_int (\<lfloor>log 2 \<bar>x\<bar>\<rfloor> + 1))"
    using floor_log_eq_powr_iff [of "\<bar>x\<bar>" 2 "\<lfloor>log 2 \<bar>x\<bar>\<rfloor>"] pos by simp
  then show "2 powi \<lfloor>log 2 \<bar>x\<bar>\<rfloor> \<le> \<bar>x\<bar>" and "\<bar>x\<bar> < 2 powi (\<lfloor>log 2 \<bar>x\<bar>\<rfloor> + 1)"
    by (simp_all add: powr_real_of_int' del: of_int_add)
qed

lemma floor_log2_eqI:
  assumes "2 powi k \<le> \<bar>x\<bar>" and "\<bar>x\<bar> < 2 powi (k + 1)"
  shows "\<lfloor>log 2 \<bar>x\<bar>\<rfloor> = k"
proof -
  have pos: "0 < \<bar>x\<bar>"
    using assms(1) zero_less_power_int [of "2::real" k] by linarith
  have "2 powr (of_int k) \<le> \<bar>x\<bar> \<and> \<bar>x\<bar> < 2 powr (of_int (k + 1))"
    using assms by (simp add: powr_real_of_int' del: of_int_add)
  then show ?thesis
    using floor_log_eq_powr_iff [of "\<bar>x\<bar>" 2 k] pos by simp
qed

lemma floor_log2_less:
  assumes "x \<noteq> 0" and "\<bar>x\<bar> < 2 powi k"
  shows "\<lfloor>log 2 \<bar>x\<bar>\<rfloor> < k"
proof (rule ccontr)
  assume "\<not> \<lfloor>log 2 \<bar>x\<bar>\<rfloor> < k"
  then have "k \<le> \<lfloor>log 2 \<bar>x\<bar>\<rfloor>" by simp
  then have "(2::real) powi k \<le> 2 powi \<lfloor>log 2 \<bar>x\<bar>\<rfloor>"
    by (intro power_int_increasing) simp_all
  with floor_log2_bounds(1) [OF assms(1)] assms(2) show False by linarith
qed

lemma floor_log2_ge:
  assumes "2 powi k \<le> \<bar>x\<bar>"
  shows "k \<le> \<lfloor>log 2 \<bar>x\<bar>\<rfloor>"
proof (rule ccontr)
  assume "\<not> k \<le> \<lfloor>log 2 \<bar>x\<bar>\<rfloor>"
  then have "\<lfloor>log 2 \<bar>x\<bar>\<rfloor> + 1 \<le> k" by simp
  then have "(2::real) powi (\<lfloor>log 2 \<bar>x\<bar>\<rfloor> + 1) \<le> 2 powi k"
    by (intro power_int_increasing) simp_all
  moreover have "x \<noteq> 0"
  proof
    assume "x = 0"
    with assms have "(2::real) powi k \<le> 0" by simp
    moreover have "0 < (2::real) powi k" by simp
    ultimately show False by linarith
  qed
  ultimately show False
    using floor_log2_bounds(2) [of x] assms by linarith
qed

text \<open>A multiple of a power of two with at most 53 significant bits is a double.\<close>

lemma double_round_fixed:
  assumes "- 1074 \<le> j" and "\<bar>of_int K * (2::real) powi j\<bar> < 2 powi (j + 53)"
  shows "double_round (of_int K * 2 powi j) = of_int K * 2 powi j"
proof (cases "of_int K * (2::real) powi j = 0")
  case True
  then show ?thesis by (simp add: double_round_def)
next
  case False
  define z :: real where "z = of_int K * 2 powi j"
  define e where "e = double_exponent z"
  define q :: real where "q = 2 powi (e - 52)"
  have z0: "z \<noteq> 0" and zb: "\<bar>z\<bar> < 2 powi (j + 53)"
    using False assms(2) by (simp_all add: z_def)
  have qpos: "0 < q" by (simp add: q_def)
  have "\<lfloor>log 2 \<bar>z\<bar>\<rfloor> < j + 53"
    using floor_log2_less [OF z0 zb] .
  then have e: "e - 52 \<le> j"
    using assms(1) by (simp add: double_exponent_def e_def)
  define d where "d = nat (j - (e - 52))"
  have j: "j = (e - 52) + int d"
    using e by (simp add: d_def)
  have pj: "(2::real) powi j = q * 2 ^ d"
    unfolding q_def by (subst j) (simp only: pow2_add_nat)
  have zq: "z = of_int (K * 2 ^ d) * q"
    by (simp add: z_def pj)
  have "z / q = of_int (K * 2 ^ d)"
    using qpos by (simp add: zq)
  then have "round_half_even (z / q) = K * 2 ^ d"
    by (simp only: round_half_even_of_int)
  then have "double_round z = of_int (K * 2 ^ d) * q"
    using z0 by (simp add: double_round_def Let_def e_def q_def)
  then have "double_round z = z"
    using zq by simp
  then show ?thesis by (simp add: z_def)
qed

lemma double_round_grid:
  assumes "x \<noteq> 0"
  shows "\<exists>N. double_round x = of_int N * 2 powi (double_exponent x - 52)"
  using assms by (auto simp: double_round_def Let_def)

lemma double_grid:
  assumes "is_double a" and "2 powi g \<le> \<bar>a\<bar>"
  shows "\<exists>K. a = of_int K * 2 powi (g - 52)"
proof -
  have a0: "a \<noteq> 0"
  proof
    assume "a = 0"
    with assms(2) have "(2::real) powi g \<le> 0" by simp
    moreover have "0 < (2::real) powi g" by simp
    ultimately show False by linarith
  qed
  define e where "e = double_exponent a"
  have "g \<le> \<lfloor>log 2 \<bar>a\<bar>\<rfloor>" using floor_log2_ge [OF assms(2)] .
  then have ge: "g \<le> e" by (simp add: e_def double_exponent_def)
  from double_round_grid [OF a0] assms(1)
  obtain N where a: "a = of_int N * 2 powi (e - 52)"
    by (auto simp: is_double_def e_def)
  define d where "d = nat (e - g)"
  have "e - 52 = (g - 52) + int d" using ge by (simp add: d_def)
  then have "(2::real) powi (e - 52) = 2 powi (g - 52) * 2 ^ d"
    by (simp only: pow2_add_nat)
  with a have "a = of_int (N * 2 ^ d) * 2 powi (g - 52)" by simp
  then show ?thesis by blast
qed

text \<open>The rounded sum \<open>m + 360\<close> for a remainder \<open>m\<close> strictly between \<open>-360\<close> and 0.\<close>

lemma double_round_below_360:
  assumes "0 < y" and "y < 360"
  shows "0 \<le> double_round y" and "double_round y \<le> 360"
    and "\<bar>double_round y - y\<bar> \<le> 2 powi (- 45)"
    and "180 < double_round y \<Longrightarrow> \<exists>K. double_round y = of_int K * 2 powi (- 45)"
    and "256 \<le> double_round y \<Longrightarrow> \<exists>K. double_round y = of_int K * 2 powi (- 44)"
proof -
  define e where "e = double_exponent y"
  define q :: real where "q = 2 powi (e - 52)"
  define N where "N = round_half_even (y / q)"
  have y0: "y \<noteq> 0" and ay: "\<bar>y\<bar> = y" using assms(1) by simp_all
  have qpos: "0 < q" by (simp add: q_def)
  have v: "double_round y = of_int N * q"
    using y0 by (simp add: double_round_def Let_def e_def q_def N_def)
  have "\<bar>y\<bar> < 2 powi 9" using assms by simp
  then have "\<lfloor>log 2 \<bar>y\<bar>\<rfloor> < 9" by (rule floor_log2_less [OF y0])
  then have e8: "e \<le> 8" by (simp add: e_def double_exponent_def)
  have "0 \<le> y / q" using assms(1) qpos by simp
  then have N0: "0 \<le> N"
    unfolding N_def using round_half_even_ge [of 0 "y / q"] by simp
  then show nonneg: "0 \<le> double_round y"
    using qpos by (simp add: v)
  have "\<lfloor>log 2 \<bar>y\<bar>\<rfloor> + 1 \<le> e + 1" by (simp add: e_def double_exponent_def)
  then have "(2::real) powi (\<lfloor>log 2 \<bar>y\<bar>\<rfloor> + 1) \<le> 2 powi (e + 1)"
    by (intro power_int_increasing) simp_all
  with floor_log2_bounds(2) [OF y0] ay have yb: "y < 2 powi (e + 1)" by linarith
  have split: "(2::real) powi (e + 1) = 2 ^ 53 * q"
  proof -
    have "e + 1 = (e - 52) + 53" by simp
    then have "(2::real) powi (e + 1) = 2 powi (e - 52) * 2 powi 53"
      by (simp only: pow2_add)
    then show ?thesis by (simp add: q_def)
  qed
  have "y / q < 2 ^ 53"
    using yb qpos by (simp add: split divide_less_eq)
  then have "y / q \<le> of_int (2 ^ 53)" by simp
  then have Nb: "N \<le> 2 ^ 53"
    unfolding N_def by (rule round_half_even_le)
  have vb: "double_round y \<le> 2 powi (e + 1)"
  proof -
    have "of_int N * q \<le> of_int (2 ^ 53) * q"
      using Nb qpos by (intro mult_right_mono) simp_all
    then show ?thesis by (simp add: v split)
  qed
  have err: "\<bar>double_round y - y\<bar> \<le> q / 2"
  proof -
    have "\<bar>of_int N - y / q\<bar> \<le> 1 / 2"
      unfolding N_def by (rule round_half_even_error)
    then have "\<bar>of_int N - y / q\<bar> * q \<le> 1 / 2 * q"
      using qpos by (intro mult_right_mono) simp_all
    moreover have "\<bar>of_int N - y / q\<bar> * q = \<bar>of_int N * q - y\<bar>"
    proof -
      have "(of_int N - y / q) * q = of_int N * q - y"
        using qpos by (simp add: field_simps)
      then have "\<bar>of_int N * q - y\<bar> = \<bar>of_int N - y / q\<bar> * \<bar>q\<bar>"
        by (simp only: abs_mult [symmetric])
      then show ?thesis using qpos by simp
    qed
    ultimately show ?thesis by (simp add: v)
  qed
  have qle: "q \<le> 2 powi (- 44)"
    unfolding q_def using e8 by (intro power_int_increasing) simp_all
  show "\<bar>double_round y - y\<bar> \<le> 2 powi (- 45)"
  proof -
    have "(2::real) powi (- 44) / 2 = 2 powi (- 45)" by simp
    with err qle show ?thesis by linarith
  qed
  consider (low) "e \<le> 6" | (seven) "e = 7" | (eight) "e = 8"
    using e8 by linarith
  note cases = this
  show "double_round y \<le> 360"
  proof (cases rule: cases)
    case low
    then have "(2::real) powi (e + 1) \<le> 2 powi 7"
      by (intro power_int_increasing) simp_all
    with vb show ?thesis by simp
  next
    case seven
    with vb show ?thesis by simp
  next
    case eight
    then have q44: "q = 2 powi (- 44)" by (simp add: q_def)
    have "y / q < 360 * 2 ^ 44"
      using assms(2) by (simp add: q44)
    then have "y / q \<le> of_int (360 * 2 ^ 44)" by simp
    then have "N \<le> 360 * 2 ^ 44"
      unfolding N_def by (rule round_half_even_le)
    then have "of_int N * q \<le> of_int (360 * 2 ^ 44) * q"
      using qpos by (intro mult_right_mono) simp_all
    then show ?thesis by (simp add: v q44)
  qed
  show "\<exists>K. double_round y = of_int K * 2 powi (- 45)" if big: "180 < double_round y"
  proof (cases rule: cases)
    case low
    then have "(2::real) powi (e + 1) \<le> 2 powi 7"
      by (intro power_int_increasing) simp_all
    with vb big show ?thesis by simp
  next
    case seven
    then have "q = 2 powi (- 45)" by (simp add: q_def)
    with v show ?thesis by blast
  next
    case eight
    then have "q = 2 powi (- 44)" by (simp add: q_def)
    with v have "double_round y = of_int (2 * N) * 2 powi (- 45)" by simp
    then show ?thesis by blast
  qed
  show "\<exists>K. double_round y = of_int K * 2 powi (- 44)" if big: "256 \<le> double_round y"
  proof (cases rule: cases)
    case low
    then have "(2::real) powi (e + 1) \<le> 2 powi 7"
      by (intro power_int_increasing) simp_all
    with vb big show ?thesis by simp
  next
    case seven
    with vb big have "double_round y = 256" by simp
    then have "double_round y = of_int (2 ^ 52) * 2 powi (- 44)" by simp
    then show ?thesis by blast
  next
    case eight
    then have "q = 2 powi (- 44)" by (simp add: q_def)
    with v show ?thesis by blast
  qed
qed

lemma grid_minus_360:
  assumes "v = of_int K * 2 powi (- 45)" and "180 < v" and "v \<le> 360"
  shows "double_round (v - 360) = v - 360"
proof -
  have eq: "v - 360 = of_int (K - 360 * 2 ^ 45) * 2 powi (- 45)"
    by (simp add: assms(1))
  have "\<bar>v - 360\<bar> < 2 powi (- 45 + 53)"
    using assms(2,3) by simp
  then have "\<bar>of_int (K - 360 * 2 ^ 45) * (2::real) powi (- 45)\<bar> < 2 powi (- 45 + 53)"
    by (simp only: eq)
  then have "double_round (of_int (K - 360 * 2 ^ 45) * 2 powi (- 45))
               = of_int (K - 360 * 2 ^ 45) * 2 powi (- 45)"
    by (intro double_round_fixed) simp_all
  then show ?thesis by (simp only: eq)
qed

lemma grid_fixed:
  assumes "\<exists>K. v = of_int K * 2 powi (- 45)"
      and "256 \<le> v \<Longrightarrow> \<exists>K. v = of_int K * 2 powi (- 44)"
      and "0 \<le> v" and "v \<le> 360"
  shows "double_round v = v"
proof (cases "v < 256")
  case True
  from assms(1) obtain K where eq: "v = of_int K * 2 powi (- 45)" by blast
  have "\<bar>v\<bar> < 2 powi (- 45 + 53)" using True assms(3) by simp
  then have "\<bar>of_int K * (2::real) powi (- 45)\<bar> < 2 powi (- 45 + 53)"
    by (simp only: eq)
  then have "double_round (of_int K * 2 powi (- 45)) = of_int K * 2 powi (- 45)"
    by (intro double_round_fixed) simp_all
  then show ?thesis by (simp only: eq)
next
  case False
  with assms(2) obtain K where eq: "v = of_int K * 2 powi (- 44)" by force
  have "\<bar>v\<bar> < 2 powi (- 44 + 53)" using assms(3,4) by simp
  then have "\<bar>of_int K * (2::real) powi (- 44)\<bar> < 2 powi (- 44 + 53)"
    by (simp only: eq)
  then have "double_round (of_int K * 2 powi (- 44)) = of_int K * 2 powi (- 44)"
    by (intro double_round_fixed) simp_all
  then show ?thesis by (simp only: eq)
qed

lemma fmod_360_nonneg:
  assumes "0 \<le> a"
  shows "fmod a 360 = a - 360 * of_int \<lfloor>a / 360\<rfloor>"
    and "0 \<le> fmod a 360" and "fmod a 360 < 360"
proof -
  show eq: "fmod a 360 = a - 360 * of_int \<lfloor>a / 360\<rfloor>"
    using assms by (simp add: fmod_def)
  define n where "n = \<lfloor>a / 360\<rfloor>"
  have "of_int n \<le> a / 360" and "a / 360 < of_int n + 1"
    unfolding n_def by linarith+
  then show "0 \<le> fmod a 360" and "fmod a 360 < 360"
    unfolding eq n_def [symmetric] by linarith+
qed

lemma fmod_360_neg:
  assumes "a < 0"
  shows "fmod a 360 = a - 360 * of_int \<lceil>a / 360\<rceil>"
    and "- 360 < fmod a 360" and "fmod a 360 \<le> 0"
proof -
  show eq: "fmod a 360 = a - 360 * of_int \<lceil>a / 360\<rceil>"
    using assms by (simp add: fmod_def)
  define n where "n = \<lceil>a / 360\<rceil>"
  have "a / 360 \<le> of_int n" and "of_int n - 1 < a / 360"
    unfolding n_def by linarith+
  then show "- 360 < fmod a 360" and "fmod a 360 \<le> 0"
    unfolding eq n_def [symmetric] by linarith+
qed

lemma py_mod_360_nonneg:
  assumes "0 \<le> a"
  shows "py_mod a 360 = a - 360 * of_int \<lfloor>a / 360\<rfloor>"
  using fmod_360_nonneg [OF assms] by (simp add: py_mod_def Let_def)

lemma py_mod_360_neg:
  assumes "a < 0"
  shows "py_mod a 360 =
           (if fmod a 360 = 0 then 0 else double_round (fmod a 360 + 360))"
  using fmod_360_neg [OF assms] by (simp add: py_mod_def Let_def)

lemma py_mod_360:
  assumes "is_double a"
  shows "0 \<le> py_mod a 360" and "py_mod a 360 \<le> 360"
    and "180 < py_mod a 360 \<Longrightarrow> \<exists>K. py_mod a 360 = of_int K * 2 powi (- 45)"
    and "256 \<le> py_mod a 360 \<Longrightarrow> \<exists>K. py_mod a 360 = of_int K * 2 powi (- 44)"
    and "\<exists>k::int. \<bar>py_mod a 360 - (a + 360 * of_int k)\<bar> \<le> 2 powi (- 45)"
    and "0 \<le> a \<Longrightarrow> \<exists>k::int. py_mod a 360 = a + 360 * of_int k"
proof -
  have nonneg: "0 \<le> py_mod a 360 \<and> py_mod a 360 \<le> 360
      \<and> (180 < py_mod a 360 \<longrightarrow> (\<exists>K. py_mod a 360 = of_int K * 2 powi (- 45)))
      \<and> (256 \<le> py_mod a 360 \<longrightarrow> (\<exists>K. py_mod a 360 = of_int K * 2 powi (- 44)))
      \<and> (\<exists>k::int. py_mod a 360 = a + 360 * of_int k)" if a0: "0 \<le> a"
  proof -
    define n where "n = \<lfloor>a / 360\<rfloor>"
    have m: "py_mod a 360 = a - 360 * of_int n"
      using py_mod_360_nonneg [OF a0] by (simp add: n_def)
    have b: "0 \<le> py_mod a 360" "py_mod a 360 < 360"
      using fmod_360_nonneg [OF a0] py_mod_360_nonneg [OF a0] by simp_all
    have n0: "0 \<le> n" using a0 by (simp add: n_def)
    then have le: "py_mod a 360 \<le> a" by (simp add: m)
    have g45: "\<exists>K. py_mod a 360 = of_int K * 2 powi (- 45)" if "180 < py_mod a 360"
    proof -
      have "2 powi 7 \<le> \<bar>a\<bar>" using that le by simp
      from double_grid [OF assms this] obtain K where "a = of_int K * 2 powi (- 45)"
        by auto
      then have "py_mod a 360 = of_int (K - 360 * n * 2 ^ 45) * 2 powi (- 45)"
        by (simp add: m)
      then show ?thesis by blast
    qed
    have g44: "\<exists>K. py_mod a 360 = of_int K * 2 powi (- 44)" if "256 \<le> py_mod a 360"
    proof -
      have "2 powi 8 \<le> \<bar>a\<bar>" using that le by simp
      from double_grid [OF assms this] obtain K where "a = of_int K * 2 powi (- 44)"
        by auto
      then have "py_mod a 360 = of_int (K - 360 * n * 2 ^ 44) * 2 powi (- 44)"
        by (simp add: m)
      then show ?thesis by blast
    qed
    have "py_mod a 360 = a + 360 * of_int (- n)" by (simp add: m)
    then have "\<exists>k::int. py_mod a 360 = a + 360 * of_int k" by blast
    with b g45 g44 show ?thesis by auto
  qed
  have neg: "0 \<le> py_mod a 360 \<and> py_mod a 360 \<le> 360
      \<and> (180 < py_mod a 360 \<longrightarrow> (\<exists>K. py_mod a 360 = of_int K * 2 powi (- 45)))
      \<and> (256 \<le> py_mod a 360 \<longrightarrow> (\<exists>K. py_mod a 360 = of_int K * 2 powi (- 44)))
      \<and> (\<exists>k::int. \<bar>py_mod a 360 - (a + 360 * of_int k)\<bar> \<le> 2 powi (- 45))" if a0: "a < 0"
  proof (cases "fmod a 360 = 0")
    case True
    then have z: "py_mod a 360 = 0" using py_mod_360_neg [OF a0] by simp
    have "a = 360 * of_int \<lceil>a / 360\<rceil>"
      using fmod_360_neg(1) [OF a0] True by simp
    then have "py_mod a 360 - (a + 360 * of_int (- \<lceil>a / 360\<rceil>)) = 0"
      using z by simp
    then have "\<bar>py_mod a 360 - (a + 360 * of_int (- \<lceil>a / 360\<rceil>))\<bar> \<le> 2 powi (- 45)"
      by (simp only: abs_zero) simp
    then have "\<exists>k::int. \<bar>py_mod a 360 - (a + 360 * of_int k)\<bar> \<le> 2 powi (- 45)"
      by blast
    with z show ?thesis by simp
  next
    case False
    define y where "y = fmod a 360 + 360"
    have v: "py_mod a 360 = double_round y"
      using py_mod_360_neg [OF a0] False by (simp add: y_def)
    have y: "0 < y" "y < 360"
      using fmod_360_neg(2,3) [OF a0] False by (simp_all add: y_def)
    note r = double_round_below_360 [OF y]
    have "y = a + 360 * of_int (1 - \<lceil>a / 360\<rceil>)"
      using fmod_360_neg(1) [OF a0] by (simp add: y_def)
    with r(3) have "\<bar>double_round y - (a + 360 * of_int (1 - \<lceil>a / 360\<rceil>))\<bar> \<le> 2 powi (- 45)"
      by simp
    then have "\<exists>k::int. \<bar>double_round y - (a + 360 * of_int k)\<bar> \<le> 2 powi (- 45)"
      by blast
    with r(1,2,4,5) show ?thesis unfolding v by blast
  qed
  show "0 \<le> py_mod a 360" and "py_mod a 360 \<le> 360"
    using nonneg neg by (cases "0 \<le> a"; simp)+
  show "\<exists>K. py_mod a 360 = of_int K * 2 powi (- 45)" if "180 < py_mod a 360"
    using nonneg neg that by (cases "0 \<le> a"; simp)
  show "\<exists>K. py_mod a 360 = of_int K * 2 powi (- 44)" if "256 \<le> py_mod a 360"
    using nonneg neg that by (cases "0 \<le> a"; simp)
  show "\<exists>k::int. \<bar>py_mod a 360 - (a + 360 * of_int k)\<bar> \<le> 2 powi (- 45)"
  proof (cases "0 \<le> a")
    case True
    with nonneg obtain k :: int where "py_mod a 360 = a + 360 * of_int k" by blast
    then have "\<bar>py_mod a 360 - (a + 360 * of_int k)\<bar> \<le> 2 powi (- 45)" by simp
    then show ?thesis by blast
  next
    case False
    with neg show ?thesis by simp
  qed
  show "\<exists>k::int. py_mod a 360 = a + 360 * of_int k" if "0 \<le> a"
    using nonneg that by simp
qed

lemma reduce_reflex_angle_deg_small:
  assumes "0 \<le> r" and "r \<le> 180"
  shows "reduce_reflex_angle_deg r = r"
proof -
  have "\<lfloor>r / 360\<rfloor> = 0"
    using assms by (intro floor_unique) simp_all
  then have "py_mod r 360 = r"
    using py_mod_360_nonneg [OF assms(1)] by simp
  then show ?thesis
    using assms(2) by (simp add: reduce_reflex_angle_deg_def Let_def)
qed

lemma reduce_reflex_angle_deg_shifted:
  assumes "180 < v" and "v < 360" and "double_round v = v"
      and "double_round (v - 360) = v - 360"
  shows "reduce_reflex_angle_deg (v - 360) = v - 360"
proof -
  have neg: "v - 360 < 0" using assms(2) by simp
  have "\<lceil>(v - 360) / 360\<rceil> = 0"
    using assms(1,2) by (intro ceiling_unique) simp_all
  then have f: "fmod (v - 360) 360 = v - 360"
    using fmod_360_neg(1) [OF neg] by simp
  have "py_mod (v - 360) 360 = double_round v"
    using py_mod_360_neg [OF neg] neg by (simp add: f)
  then show ?thesis
    using assms(1,3,4) by (simp add: reduce_reflex_angle_deg_def Let_def)
qed

lemma double_round_eval:
  assumes "2 powi k \<le> \<bar>x\<bar>" and "\<bar>x\<bar> < 2 powi (k + 1)" and "- 1022 \<le> k"
  shows "double_round x = of_int (round_half_even (x / 2 powi (k - 52))) * 2 powi (k - 52)"
proof -
  have "x \<noteq> 0"
  proof
    assume "x = 0"
    with assms(1) have "(2::real) powi k \<le> 0" by simp
    moreover have "0 < (2::real) powi k" by simp
    ultimately show False by linarith
  qed
  moreover have "double_exponent x = k"
    using floor_log2_eqI [OF assms(1,2)] assms(3) by (simp add: double_exponent_def)
  ultimately show ?thesis by (simp add: double_round_def Let_def)
qed

lemma is_double_small:
  assumes "double_round x = x" and "\<bar>x\<bar> < 2 powi 10"
  shows "is_double x"
proof -
  have "(2::real) powi 10 \<le> 2 powi 1024"
    by (intro power_int_increasing) simp_all
  with assms show ?thesis by (simp add: is_double_def)
qed

lemma double_round_300: "double_round 300 = 300"
  using double_round_fixed [of 0 300] by simp

lemma math_ceil_float_mul_60_5: "math_ceil (float_mul 60 5) = 300"
  by (simp add: math_ceil_def float_mul_def double_round_300)

subsection \<open>Rounding at concrete values\<close>

text \<open>
  The double nearest to 10.3 is \<open>2899192260119757 / 2 ^ 48\<close> and the double nearest to
  0.1 is \<open>3602879701896397 / 2 ^ 55\<close>. Their exact products with 10 lie above 103 and
  above 1; the float products are 103 and 1.
\<close>

lemma float_mul_examples:
  "math_ceil (float_mul (2899192260119757 / 2 ^ 48) 10) = 103"
  "math_ceil (float_mul (3602879701896397 / 2 ^ 55) 10) = 1"
  "\<lceil>(2899192260119757 / 2 ^ 48 * 10 :: real)\<rceil> = 104"
  "\<lceil>(3602879701896397 / 2 ^ 55 * 10 :: real)\<rceil> = 2"
proof -
  have "double_round (2899192260119757 / 2 ^ 48 * 10) = 103"
    by (subst double_round_eval [of 6]) (simp_all add: round_half_even_def)
  then show "math_ceil (float_mul (2899192260119757 / 2 ^ 48) 10) = 103"
    by (simp add: math_ceil_def float_mul_def)
  have "double_round (3602879701896397 / 2 ^ 55 * 10) = 1"
    by (subst double_round_eval [of 0]) (simp_all add: round_half_even_def)
  then show "math_ceil (float_mul (3602879701896397 / 2 ^ 55) 10) = 1"
    by (simp add: math_ceil_def float_mul_def)
  show "\<lceil>(2899192260119757 / 2 ^ 48 * 10 :: real)\<rceil> = 104"
    by (intro ceiling_unique) simp_all
  show "\<lceil>(3602879701896397 / 2 ^ 55 * 10 :: real)\<rceil> = 2"
    by (intro ceiling_unique) simp_all
qed

lemma double_round_tenth_sum:
  "double_round (- (3602879701896397 / 2 ^ 55) + 360) = 3165713878692659 / 2 ^ 43"
  by (subst double_round_eval [of 8]) (simp_all add: round_half_even_def)

lemma double_round_tenth_difference:
  "double_round (3165713878692659 / 2 ^ 43 - 360) = - (879609302221 / 2 ^ 43)"
  by (subst double_round_eval [of "- 4"]) (simp_all add: round_half_even_def)

lemma py_mod_tenth:
  "py_mod (- (3602879701896397 / 2 ^ 55)) 360 = 3165713878692659 / 2 ^ 43"
proof -
  have "\<lceil>- (3602879701896397 / 2 ^ 55) / (360::real)\<rceil> = 0"
    by (intro ceiling_unique) simp_all
  then have "fmod (- (3602879701896397 / 2 ^ 55)) 360 = - (3602879701896397 / 2 ^ 55)"
    by (simp add: fmod_def)
  then show ?thesis
    using double_round_tenth_sum by (simp add: py_mod_def Let_def)
qed

lemma reduce_reflex_angle_deg_tenth:
  "reduce_reflex_angle_deg (- (3602879701896397 / 2 ^ 55)) = - (879609302221 / 2 ^ 43)"
proof -
  have "reduce_reflex_angle_deg (- (3602879701896397 / 2 ^ 55))
          = double_round (3165713878692659 / 2 ^ 43 - 360)"
    by (simp only: reduce_reflex_angle_deg_def py_mod_tenth Let_def) simp
  then show ?thesis by (simp only: double_round_tenth_difference)
qed

lemma is_double_tenth: "is_double (- (3602879701896397 / 2 ^ 55))"
proof -
  have "double_round (of_int (- 3602879701896397) * 2 powi (- 55))
          = of_int (- 3602879701896397) * 2 powi (- 55)"
    by (intro double_round_fixed) simp_all
  then have "double_round (- (3602879701896397 / 2 ^ 55)) = - (3602879701896397 / 2 ^ 55)"
    by simp
  then show ?thesis by (intro is_double_small) simp_all
qed

lemma double_round_tiny_sum: "double_round (- (1 / 2 ^ 60) + 360) = 360"
  by (subst double_round_eval [of 8]) (simp_all add: round_half_even_def)

lemma py_mod_tiny: "py_mod (- (1 / 2 ^ 60)) 360 = 360"
proof -
  have "\<lceil>- (1 / 2 ^ 60) / (360::real)\<rceil> = 0"
    by (intro ceiling_unique) simp_all
  then have "fmod (- (1 / 2 ^ 60)) 360 = - (1 / 2 ^ 60)"
    by (simp add: fmod_def)
  then show ?thesis
    using double_round_tiny_sum by (simp add: py_mod_def Let_def)
qed

lemma reduce_reflex_angle_deg_tiny: "reduce_reflex_angle_deg (- (1 / 2 ^ 60)) = 0"
  by (simp only: reduce_reflex_angle_deg_def py_mod_tiny Let_def) (simp add: double_round_def)

lemma is_double_tiny: "is_double (- (1 / 2 ^ 60))"
proof -
  have "double_round (of_int (- 1) * 2 powi (- 60)) = of_int (- 1) * 2 powi (- 60)"
    by (intro double_round_fixed) simp_all
  then have "double_round (- (1 / 2 ^ 60)) = - (1 / 2 ^ 60)"
    by simp
  then show ?thesis by (intro is_double_small) simp_all
qed

lemma is_double_541: "is_double 541"
proof -
  have "double_round (of_int 541 * 2 powi 0) = of_int 541 * 2 powi 0"
    by (intro double_round_fixed) simp_all
  then show ?thesis by (intro is_double_small) simp_all
qed

lemma reduce_reflex_angle_deg_541: "reduce_reflex_angle_deg 541 = - 179"
proof -
  have "\<lfloor>(541::real) / 360\<rfloor> = 1"
    by (intro floor_unique) simp_all
  then have "py_mod 541 360 = 181"
    using py_mod_360_nonneg [of 541] by simp
  moreover have "double_round (of_int (- 179) * 2 powi 0) = of_int (- 179) * 2 powi 0"
    by (intro double_round_fixed) simp_all
  ultimately show ?thesis
    by (simp add: reduce_reflex_angle_deg_def Let_def)
qed

subsection \<open>The task\<close>

lemma demo_task_constructed:
  "TrajectoryTask_init [u_fps, altitude_sl_ft] demo_base_initial_conditions STANDARD 5
     demo_aircraft 60 False = Inr demo_task"
  by (simp add: TrajectoryTask_init_def make_assessor_def select_assessor_def
        make_base_reward_components_def demo_task_def demo_state_variables_def Let_def
        math_ceil_float_mul_60_5)

lemma init_ecef_position_at_Some:
  "init_ecef_position self = Some [ax, ay, az] \<Longrightarrow>
     init_ecef_position_at self 0 = Inr ax \<and> init_ecef_position_at self 1 = Inr ay
       \<and> init_ecef_position_at self 2 = Inr az"
  by (simp add: init_ecef_position_at_def)

lemma get_target_position_Some:
  assumes "init_ecef_position self = Some [ax, ay, az]"
  shows "get_target_position self ''x'' = Inr (TARGET_xPOSITION_FT + ax)"
    and "get_target_position self ''y'' = Inr (TARGET_yPOSITION_FT + ay)"
    and "get_target_position self ''z'' = Inr (TARGET_zPOSITION_FT + az)"
  using init_ecef_position_at_Some [OF assms] by (simp_all add: get_target_position_def)

lemma update_custom_properties_Some:
  assumes "init_ecef_position self = Some [ax, ay, az]"
  shows "update_custom_properties self sim =
           Inr (sim(position_error_mt :=
                      sqrt ((sim ecef_x_ft - sim target_Xposition)\<^sup>2
                            + (sim ecef_y_ft - sim target_Yposition)\<^sup>2),
                    altitude_error_ft := sim ecef_z_ft - (TARGET_zPOSITION_FT + az),
                    steps_left := sim steps_left - 1))"
  by (simp add: update_custom_properties_def update_altitude_error_def
        update_position_error_def decrement_steps_left_def
        get_target_position_Some(3) [OF assms] Let_def)

lemma sim_run_declared:
  "sim_run w sim steps_left = sim steps_left"
  "sim_run w sim target_Xposition = sim target_Xposition"
  "sim_run w sim target_Yposition = sim target_Yposition"
  by (simp_all add: sim_run_def declared_by_task_def)

lemma sim_run_engine:
  "sim_run w sim ecef_x_ft = w ecef_x_ft"
  "sim_run w sim ecef_y_ft = w ecef_y_ft"
  "sim_run w sim ecef_z_ft = w ecef_z_ft"
  "sim_run w sim last_assessment_reward = w last_assessment_reward"
  by (simp_all add: sim_run_def declared_by_task_def)

text \<open>
  Once the anchor exists, any run of steps succeeds, counts \<^verbatim>\<open>steps_left\<close> down by its
  length and leaves the two target properties alone, whatever the engine does.
\<close>

lemma task_steps_Some:
  assumes "init_ecef_position self = Some [ax, ay, az]"
  shows "\<exists>sim'. task_steps self ws sim = Inr sim'
           \<and> sim' steps_left = sim steps_left - real (length ws)
           \<and> sim' target_Xposition = sim target_Xposition
           \<and> sim' target_Yposition = sim target_Yposition"
proof (induction ws arbitrary: sim)
  case Nil
  show ?case by simp
next
  case (Cons w ws)
  let ?s = "sim_run w sim"
  obtain s1 where s1: "update_custom_properties self ?s = Inr s1"
    and c: "s1 steps_left = ?s steps_left - 1"
    and x: "s1 target_Xposition = ?s target_Xposition"
    and y: "s1 target_Yposition = ?s target_Yposition"
    by (simp add: update_custom_properties_Some [OF assms])
  from Cons.IH [of s1] obtain s2 where s2: "task_steps self ws s1 = Inr s2"
    and c2: "s2 steps_left = s1 steps_left - real (length ws)"
    and x2: "s2 target_Xposition = s1 target_Xposition"
    and y2: "s2 target_Yposition = s1 target_Yposition"
    by blast
  have "task_steps self (w # ws) sim = Inr s2" using s1 s2 by simp
  moreover have "s2 steps_left = sim steps_left - real (length (w # ws))"
    using c c2 by (simp add: sim_run_declared)
  moreover have "s2 target_Xposition = sim target_Xposition"
    using x x2 by (simp add: sim_run_declared)
  moreover have "s2 target_Yposition = sim target_Yposition"
    using y y2 by (simp add: sim_run_declared)
  ultimately show ?case by blast
qed

lemma new_episode_init_eq:
  "new_episode_init env self sim =
     Inr (self\<lparr>init_ecef_position :=
                Some [post_init_sim env self sim ecef_x_ft, post_init_sim env self sim ecef_y_ft,
                      post_init_sim env self sim ecef_z_ft]\<rparr>,
          (post_init_sim env self sim)
            (target_Xposition := TARGET_xPOSITION_FT + post_init_sim env self sim ecef_x_ft,
             target_Yposition := TARGET_yPOSITION_FT + post_init_sim env self sim ecef_y_ft))"
  by (simp add: new_episode_init_def post_init_sim_def Let_def get_target_position_def
        init_ecef_position_at_def)

lemma TrajectoryTask_init_fields:
  "TrajectoryTask_init bv bic m hz ac T pr = Inr task \<Longrightarrow>
     steps_left_max task = math_ceil (float_mul T hz) \<and> positive_rewards task = pr"
  by (auto simp: TrajectoryTask_init_def Let_def split: sum.splits)

lemma post_init_sim_demo:
  "post_init_sim demo_env demo_task demo_sim ecef_x_ft = 100"
  "post_init_sim demo_env demo_task demo_sim ecef_y_ft = 200"
  "post_init_sim demo_env demo_task demo_sim ecef_z_ft = 300"
  "post_init_sim demo_env demo_task demo_sim steps_left = 300"
  by (simp_all add: post_init_sim_def demo_env_def demo_sim_def demo_task_def)

lemma extra_conditions_dom:
  "dom (extra_conditions self) =
     {initial_u_fps, initial_v_fps, initial_w_fps, initial_p_radps, initial_q_radps,
      initial_r_radps, initial_roc_fpm, initial_heading_deg}"
  by (auto simp: extra_conditions_def split: if_splits)

section \<open>The terminal reward override\<close>

text \<open>
  C1. When the altitude error exceeds \<^verbatim>\<open>MAX_ALTITUDE_DEVIATION_FT\<close> in absolute value and
  the task has \<^verbatim>\<open>positive_rewards = False\<close>, \<^verbatim>\<open>_reward_terminal_override\<close> drops the
  reward it is given and returns one whose agent reward and assessment reward are both
  \<open>- (1 + steps_left)\<close>, read from the simulation at the call; the update hook that ran
  before has already taken one off \<^verbatim>\<open>steps_left\<close>. With \<^verbatim>\<open>positive_rewards = True\<close>, and
  also while the altitude error is within the envelope, the given reward comes back
  unchanged.
\<close>

theorem reward_terminal_override_spec:
  "(\<bar>sim altitude_error_ft\<bar> > MAX_ALTITUDE_DEVIATION_FT \<and> \<not> positive_rewards self \<longrightarrow>
       agent_reward (reward_terminal_override self rew sim) = - (1 + sim steps_left)
     \<and> assessment_reward (reward_terminal_override self rew sim) = - (1 + sim steps_left))
   \<and> (positive_rewards self \<longrightarrow> reward_terminal_override self rew sim = rew)
   \<and> (\<not> \<bar>sim altitude_error_ft\<bar> > MAX_ALTITUDE_DEVIATION_FT \<longrightarrow>
        reward_terminal_override self rew sim = rew)
   \<and> (update_custom_properties self sim_before = Inr sim \<longrightarrow>
        sim steps_left = sim_before steps_left - 1)"
  by (auto simp: reward_terminal_override_def altitude_out_of_bounds_def
        get_out_of_bounds_reward_def Let_def update_custom_properties_def
        update_altitude_error_def update_position_error_def decrement_steps_left_def
        split: sum.splits)

theorem reward_terminal_override_witness:
  "\<bar>(demo_sim(altitude_error_ft := 1001, steps_left := 7)) altitude_error_ft\<bar>
       > MAX_ALTITUDE_DEVIATION_FT
   \<and> \<not> positive_rewards demo_task
   \<and> agent_reward (reward_terminal_override demo_task (RewardStub (1 / 2) (1 / 4))
        (demo_sim(altitude_error_ft := 1001, steps_left := 7))) = - 8
   \<and> assessment_reward (reward_terminal_override demo_task (RewardStub (1 / 2) (1 / 4))
        (demo_sim(altitude_error_ft := 1001, steps_left := 7))) = - 8
   \<and> positive_rewards (demo_task\<lparr>positive_rewards := True\<rparr>)
   \<and> reward_terminal_override (demo_task\<lparr>positive_rewards := True\<rparr>)
        (RewardStub (1 / 2) (1 / 4)) (demo_sim(altitude_error_ft := 1001, steps_left := 7))
       = RewardStub (1 / 2) (1 / 4)
   \<and> \<not> \<bar>(demo_sim(altitude_error_ft := 1000, steps_left := 7)) altitude_error_ft\<bar>
       > MAX_ALTITUDE_DEVIATION_FT
   \<and> reward_terminal_override demo_task (RewardStub (1 / 2) (1 / 4))
        (demo_sim(altitude_error_ft := 1000, steps_left := 7)) = RewardStub (1 / 2) (1 / 4)"
  using reward_terminal_override_spec
          [of "demo_sim(altitude_error_ft := 1001, steps_left := 7)" demo_task
              "RewardStub (1 / 2) (1 / 4)"]
        reward_terminal_override_spec
          [of "demo_sim(altitude_error_ft := 1001, steps_left := 7)"
              "demo_task\<lparr>positive_rewards := True\<rparr>" "RewardStub (1 / 2) (1 / 4)"]
        reward_terminal_override_spec
          [of "demo_sim(altitude_error_ft := 1000, steps_left := 7)" demo_task
              "RewardStub (1 / 2) (1 / 4)"]
  by (simp add: MAX_ALTITUDE_DEVIATION_FT_def demo_task_def)

section \<open>The termination predicate\<close>

text \<open>
  C2. \<^verbatim>\<open>_is_terminal\<close> is true exactly when one of four triggers holds: no steps left,
  the last assessment reward below \<^verbatim>\<open>MIN_STATE_QUALITY\<close>, the absolute altitude error
  above \<^verbatim>\<open>MAX_ALTITUDE_DEVIATION_FT\<close>, or the position error below
  \<^verbatim>\<open>NAVIGATION_TOLERANCE\<close>. The last two comparisons are strict: a position error equal
  to the tolerance of 50 does not fire the navigation trigger and one less does; an
  altitude error equal to the deviation of 1000, of either sign, does not fire the
  altitude trigger; with the other triggers silent the episode goes on at both limits.
\<close>

theorem is_terminal_spec:
  "(is_terminal self sim \<longleftrightarrow>
      sim steps_left \<le> 0 \<or> sim last_assessment_reward < MIN_STATE_QUALITY
        \<or> \<bar>sim altitude_error_ft\<bar> > MAX_ALTITUDE_DEVIATION_FT
        \<or> sim position_error_mt < NAVIGATION_TOLERANCE)
   \<and> NAVIGATION_TOLERANCE = 50 \<and> MAX_ALTITUDE_DEVIATION_FT = 1000
   \<and> (sim position_error_mt = NAVIGATION_TOLERANCE \<longrightarrow>
        \<not> arrive_at_navigation_point self sim)
   \<and> (sim position_error_mt = NAVIGATION_TOLERANCE - 1 \<longrightarrow>
        arrive_at_navigation_point self sim \<and> is_terminal self sim)
   \<and> (\<bar>sim altitude_error_ft\<bar> = MAX_ALTITUDE_DEVIATION_FT \<longrightarrow>
        \<not> altitude_out_of_bounds self sim)
   \<and> (0 < sim steps_left \<and> MIN_STATE_QUALITY \<le> sim last_assessment_reward
        \<and> \<bar>sim altitude_error_ft\<bar> \<le> MAX_ALTITUDE_DEVIATION_FT
        \<and> sim position_error_mt = NAVIGATION_TOLERANCE \<longrightarrow> \<not> is_terminal self sim)
   \<and> (0 < sim steps_left \<and> MIN_STATE_QUALITY \<le> sim last_assessment_reward
        \<and> \<bar>sim altitude_error_ft\<bar> = MAX_ALTITUDE_DEVIATION_FT
        \<and> NAVIGATION_TOLERANCE \<le> sim position_error_mt \<longrightarrow> \<not> is_terminal self sim)"
  by (simp add: is_terminal_def altitude_out_of_bounds_def arrive_at_navigation_point_def
        NAVIGATION_TOLERANCE_def MAX_ALTITUDE_DEVIATION_FT_def MIN_STATE_QUALITY_def)

theorem is_terminal_witness:
  "\<not> is_terminal demo_task (demo_sim(position_error_mt := 50, altitude_error_ft := - 1000))
   \<and> is_terminal demo_task (demo_sim(position_error_mt := 49))
   \<and> \<not> is_terminal demo_task demo_sim
   \<and> is_terminal demo_task (demo_sim(altitude_error_ft := 1001))
   \<and> is_terminal demo_task (demo_sim(steps_left := 0))"
  using is_terminal_spec
          [of demo_task "demo_sim(position_error_mt := 50, altitude_error_ft := - 1000)"]
        is_terminal_spec [of demo_task "demo_sim(position_error_mt := 49)"]
        is_terminal_spec [of demo_task demo_sim]
        is_terminal_spec [of demo_task "demo_sim(altitude_error_ft := 1001)"]
        is_terminal_spec [of demo_task "demo_sim(steps_left := 0)"]
  by (simp add: demo_sim_def MIN_STATE_QUALITY_def)

section \<open>Selection of the assessor\<close>

text \<open>
  C3. With mode \<^verbatim>\<open>STANDARD\<close>, \<^verbatim>\<open>_select_assessor\<close> builds the assessor from the base
  components and the shaping tuple it is handed, which \<^verbatim>\<open>make_assessor\<close>, its caller,
  fixes to the empty tuple: the task's assessor has no shaping component. With mode
  \<^verbatim>\<open>EXTRA\<close> it builds the assessor from the base components and exactly two shaping
  components, wings-level on the roll angle and no-sideslip, both potential based, with
  the task's scaling constants. Any other mode gives a \<^verbatim>\<open>ValueError\<close> and no assessor,
  and the constructor of the task fails with it.
\<close>

theorem select_assessor_spec:
  "make_assessor self STANDARD =
      Inr (AssessorImpl (make_base_reward_components self) [] (positive_rewards self))
   \<and> select_assessor self base shaping_comps STANDARD =
      Inr (AssessorImpl base shaping_comps (positive_rewards self))
   \<and> select_assessor self base shaping_comps EXTRA =
      Inr (AssessorImpl base
             [AsymptoticErrorComponent ''wings_level'' roll_rad (state_variables self)
                0 True ROLL_ERROR_SCALING_RAD,
              AsymptoticErrorComponent ''no_sideslip'' sideslip_deg (state_variables self)
                0 True SIDESLIP_ERROR_SCALING_DEG]
             (positive_rewards self))
   \<and> (\<exists>w n. make_assessor self EXTRA =
          Inr (AssessorImpl (make_base_reward_components self) [w, n] (positive_rewards self))
        \<and> is_potential_based w \<and> is_potential_based n
        \<and> component_prop w = roll_rad \<and> component_prop n = sideslip_deg
        \<and> scaling_factor w = ROLL_ERROR_SCALING_RAD
        \<and> scaling_factor n = SIDESLIP_ERROR_SCALING_DEG)
   \<and> list_all (\<lambda>c. \<not> is_potential_based c) (make_base_reward_components self)
   \<and> (mode \<noteq> STANDARD \<and> mode \<noteq> EXTRA \<longrightarrow>
        select_assessor self base shaping_comps mode =
          Inl (ValueError (''Unsupported shaping type: '' @ shaping_str mode))
      \<and> make_assessor self mode =
          Inl (ValueError (''Unsupported shaping type: '' @ shaping_str mode))
      \<and> TrajectoryTask_init bv bic mode hz ac T pr =
          Inl (ValueError (''Unsupported shaping type: '' @ shaping_str mode)))"
  by (simp add: make_assessor_def select_assessor_def TrajectoryTask_init_def Let_def
        make_base_reward_components_def)

theorem select_assessor_witness:
  "EXTRA_SEQUENTIAL \<noteq> STANDARD \<and> EXTRA_SEQUENTIAL \<noteq> EXTRA
   \<and> select_assessor demo_task (make_base_reward_components demo_task) [] EXTRA_SEQUENTIAL =
       Inl (ValueError ''Unsupported shaping type: Shaping.EXTRA_SEQUENTIAL'')
   \<and> make_assessor demo_task (stage ''stage1'') =
       Inl (ValueError ''Unsupported shaping type: stage1'')
   \<and> TrajectoryTask_init [u_fps, altitude_sl_ft] demo_base_initial_conditions EXTRA_SEQUENTIAL
        5 demo_aircraft 60 False =
       Inl (ValueError ''Unsupported shaping type: Shaping.EXTRA_SEQUENTIAL'')"
  using select_assessor_spec
          [of demo_task "make_base_reward_components demo_task" "[]" EXTRA_SEQUENTIAL
              "[u_fps, altitude_sl_ft]" demo_base_initial_conditions 5 demo_aircraft 60 False]
        select_assessor_spec
          [of demo_task "make_base_reward_components demo_task" "[]" "stage ''stage1''"
              "[u_fps, altitude_sl_ft]" demo_base_initial_conditions 5 demo_aircraft 60 False]
  by simp

section \<open>The step counter\<close>

text \<open>
  C4. For a task built with episode time \<open>T\<close> and step frequency \<open>hz\<close> whose float
  product is finite, whatever anchor an earlier episode left in the task object and
  whatever the simulation holds, \<^verbatim>\<open>_new_episode_init\<close> succeeds and sets \<^verbatim>\<open>steps_left\<close>
  to the configured maximum, \<^verbatim>\<open>math.ceil\<close> of the float product of \<open>T\<close> and \<open>hz\<close>,
  which is the ceiling of the rounded product. From then on every call of the update
  hook succeeds and takes exactly one off \<^verbatim>\<open>steps_left\<close>, so a run of steps leaves the
  maximum less its length. With \<open>T = 60\<close> and \<open>hz = 5\<close> the maximum is 300; before the
  300th step the counter is positive and the episode is terminal only through one of
  the other three triggers; after the 300th step the counter is 0 and the termination
  predicate is true.
\<close>

theorem steps_left_spec:
  assumes "TrajectoryTask_init bv bic mode hz ac T pr = Inr task"
      and "\<bar>float_mul T hz\<bar> < 2 powi 1024"
  shows "\<exists>self' sim0.
           new_episode_init env (task\<lparr>init_ecef_position := previous\<rparr>) sim = Inr (self', sim0)
         \<and> sim0 steps_left = of_int (math_ceil (float_mul T hz))
         \<and> steps_left_max self' = math_ceil (float_mul T hz)
         \<and> math_ceil (float_mul T hz) = \<lceil>double_round (T * hz)\<rceil>
         \<and> (\<forall>s. \<exists>s'. update_custom_properties self' s = Inr s'
                     \<and> s' steps_left = s steps_left - 1)
         \<and> (\<forall>ws. \<exists>s'. task_steps self' ws sim0 = Inr s'
                     \<and> s' steps_left = of_int (math_ceil (float_mul T hz)) - real (length ws)
                     \<and> (T = 60 \<and> hz = 5 \<and> length ws < 300 \<longrightarrow>
                           0 < s' steps_left
                         \<and> (is_terminal self' s' \<longleftrightarrow>
                              s' last_assessment_reward < MIN_STATE_QUALITY
                            \<or> \<bar>s' altitude_error_ft\<bar> > MAX_ALTITUDE_DEVIATION_FT
                            \<or> s' position_error_mt < NAVIGATION_TOLERANCE))
                     \<and> (T = 60 \<and> hz = 5 \<and> length ws = 300 \<longrightarrow>
                           s' steps_left = 0 \<and> is_terminal self' s'))
         \<and> (T = 60 \<and> hz = 5 \<longrightarrow> sim0 steps_left = 300)"
proof -
  let ?self = "task\<lparr>init_ecef_position := previous\<rparr>"
  let ?p = "post_init_sim env ?self sim"
  let ?self' = "?self\<lparr>init_ecef_position := Some [?p ecef_x_ft, ?p ecef_y_ft, ?p ecef_z_ft]\<rparr>"
  let ?sim0 = "?p(target_Xposition := TARGET_xPOSITION_FT + ?p ecef_x_ft,
                  target_Yposition := TARGET_yPOSITION_FT + ?p ecef_y_ft)"
  define n where "n = math_ceil (float_mul T hz)"
  have mx: "steps_left_max task = n"
    using TrajectoryTask_init_fields [OF assms(1)] by (simp add: n_def)
  have n300: "n = 300" if "T = 60" "hz = 5"
    using that math_ceil_float_mul_60_5 by (simp add: n_def)
  have nceil: "n = \<lceil>double_round (T * hz)\<rceil>"
    by (simp add: n_def math_ceil_def float_mul_def)
  have anchor: "init_ecef_position ?self' = Some [?p ecef_x_ft, ?p ecef_y_ft, ?p ecef_z_ft]"
    by simp
  have run: "new_episode_init env ?self sim = Inr (?self', ?sim0)"
    by (rule new_episode_init_eq)
  have s0: "?sim0 steps_left = of_int n"
    by (simp add: post_init_sim_def mx)
  have mx': "steps_left_max ?self' = n"
    by (simp add: mx)
  have one: "\<exists>s'. update_custom_properties ?self' s = Inr s' \<and> s' steps_left = s steps_left - 1"
    for s
    using update_custom_properties_Some [OF anchor, of s] by simp
  have many: "\<exists>s'. task_steps ?self' ws ?sim0 = Inr s'
                \<and> s' steps_left = of_int n - real (length ws)
                \<and> (T = 60 \<and> hz = 5 \<and> length ws < 300 \<longrightarrow>
                      0 < s' steps_left
                    \<and> (is_terminal ?self' s' \<longleftrightarrow>
                         s' last_assessment_reward < MIN_STATE_QUALITY
                       \<or> \<bar>s' altitude_error_ft\<bar> > MAX_ALTITUDE_DEVIATION_FT
                       \<or> s' position_error_mt < NAVIGATION_TOLERANCE))
                \<and> (T = 60 \<and> hz = 5 \<and> length ws = 300 \<longrightarrow>
                      s' steps_left = 0 \<and> is_terminal ?self' s')" for ws
  proof -
    from task_steps_Some [OF anchor, of ws ?sim0]
    obtain s' where r: "task_steps ?self' ws ?sim0 = Inr s'"
      and c: "s' steps_left = ?sim0 steps_left - real (length ws)"
      by blast
    have c': "s' steps_left = of_int n - real (length ws)"
      using c s0 by simp
    have lt: "0 < s' steps_left" if "T = 60" "hz = 5" "length ws < 300"
      using c' n300 [OF that(1,2)] that(3) by simp
    have eq: "s' steps_left = 0" if "T = 60" "hz = 5" "length ws = 300"
      using c' n300 [OF that(1,2)] that(3) by simp
    show ?thesis
      using r c' lt eq
      by (auto simp: is_terminal_def altitude_out_of_bounds_def
            arrive_at_navigation_point_def)
  qed
  have "T = 60 \<and> hz = 5 \<longrightarrow> ?sim0 steps_left = 300"
    using s0 n300 by simp
  with run s0 mx' nceil one many show ?thesis
    unfolding n_def by blast
qed

theorem steps_left_witness:
  "\<bar>float_mul 60 5\<bar> < 2 powi 1024
   \<and> (\<exists>self' sim0.
        new_episode_init demo_env (demo_task\<lparr>init_ecef_position := Some [1, 2, 3]\<rparr>)
          (demo_sim(steps_left := - 4)) = Inr (self', sim0)
      \<and> sim0 steps_left = 300
      \<and> (\<exists>s'. update_custom_properties self' sim0 = Inr s' \<and> s' steps_left = 299)
      \<and> (\<exists>s'. task_steps self' (replicate 299 demo_sim) sim0 = Inr s' \<and> 0 < s' steps_left)
      \<and> (\<exists>s'. task_steps self' (replicate 300 demo_sim) sim0 = Inr s'
             \<and> s' steps_left = 0 \<and> is_terminal self' s'))"
proof -
  have fin: "\<bar>float_mul 60 5\<bar> < 2 powi 1024"
  proof -
    have "(2::real) powi 10 \<le> 2 powi 1024"
      by (intro power_int_increasing) simp_all
    then show ?thesis by (simp add: float_mul_def double_round_300)
  qed
  from steps_left_spec
         [OF demo_task_constructed fin, of demo_env "Some [1, 2, 3]"
            "demo_sim(steps_left := - 4)"]
  obtain self' sim0 where
    a: "new_episode_init demo_env (demo_task\<lparr>init_ecef_position := Some [1, 2, 3]\<rparr>)
          (demo_sim(steps_left := - 4)) = Inr (self', sim0)"
    and b: "sim0 steps_left = of_int (math_ceil (float_mul 60 5))"
    and c: "\<forall>s. \<exists>s'. update_custom_properties self' s = Inr s'
                     \<and> s' steps_left = s steps_left - 1"
    and d: "\<forall>ws. \<exists>s'. task_steps self' ws sim0 = Inr s'
                     \<and> s' steps_left = of_int (math_ceil (float_mul 60 5)) - real (length ws)
                     \<and> ((60::real) = 60 \<and> (5::real) = 5 \<and> length ws < 300 \<longrightarrow>
                           0 < s' steps_left
                         \<and> (is_terminal self' s' \<longleftrightarrow>
                              s' last_assessment_reward < MIN_STATE_QUALITY
                            \<or> \<bar>s' altitude_error_ft\<bar> > MAX_ALTITUDE_DEVIATION_FT
                            \<or> s' position_error_mt < NAVIGATION_TOLERANCE))
                     \<and> ((60::real) = 60 \<and> (5::real) = 5 \<and> length ws = 300 \<longrightarrow>
                           s' steps_left = 0 \<and> is_terminal self' s')"
    by blast
  have b': "sim0 steps_left = 300"
    using b by (simp add: math_ceil_float_mul_60_5)
  from c [rule_format, of sim0] b'
  have c': "\<exists>s'. update_custom_properties self' sim0 = Inr s' \<and> s' steps_left = 299"
    by auto
  from d [rule_format, of "replicate 299 demo_sim"]
  have d1: "\<exists>s'. task_steps self' (replicate 299 demo_sim) sim0 = Inr s' \<and> 0 < s' steps_left"
    by auto
  from d [rule_format, of "replicate 300 demo_sim"]
  have d2: "\<exists>s'. task_steps self' (replicate 300 demo_sim) sim0 = Inr s'
              \<and> s' steps_left = 0 \<and> is_terminal self' s'"
    by auto
  from fin a b' c' d1 d2 show ?thesis
    by blast
qed

section \<open>The target position\<close>

text \<open>
  C5. \<^verbatim>\<open>_new_episode_init\<close> captures the aircraft's position \<open>(ax, ay, az)\<close> as
  \<^verbatim>\<open>init_ecef_position\<close> and sets the target to that anchor plus the fixed offset
  \<open>(2000, -8000, 0)\<close>: the x and y targets are written to the simulation, the z target
  is what \<^verbatim>\<open>_get_target_position\<close> returns for the flag z. From the anchor
  \<open>(100, 200, 300)\<close> the target is \<open>(2100, -7800, 300)\<close>. Any run of steps of that
  episode, wherever the engine moves the aircraft, leaves the x and y targets as they
  are; the z target depends on the task object alone, which no step changes.
\<close>

theorem target_position_spec:
  assumes "post_init_sim env self sim ecef_x_ft = ax"
      and "post_init_sim env self sim ecef_y_ft = ay"
      and "post_init_sim env self sim ecef_z_ft = az"
  shows "\<exists>self' sim0.
           new_episode_init env self sim = Inr (self', sim0)
         \<and> init_ecef_position self' = Some [ax, ay, az]
         \<and> sim0 target_Xposition = 2000 + ax
         \<and> sim0 target_Yposition = - 8000 + ay
         \<and> get_target_position self' ''x'' = Inr (2000 + ax)
         \<and> get_target_position self' ''y'' = Inr (- 8000 + ay)
         \<and> get_target_position self' ''z'' = Inr (0 + az)
         \<and> (\<forall>ws. \<exists>s'. task_steps self' ws sim0 = Inr s'
                     \<and> s' target_Xposition = 2000 + ax
                     \<and> s' target_Yposition = - 8000 + ay)
         \<and> (ax = 100 \<and> ay = 200 \<and> az = 300 \<longrightarrow>
               sim0 target_Xposition = 2100 \<and> sim0 target_Yposition = - 7800
             \<and> get_target_position self' ''z'' = Inr 300
             \<and> (\<forall>ws. \<exists>s'. task_steps self' ws sim0 = Inr s'
                         \<and> s' target_Xposition = 2100 \<and> s' target_Yposition = - 7800))"
proof -
  let ?p = "post_init_sim env self sim"
  let ?self' = "self\<lparr>init_ecef_position := Some [ax, ay, az]\<rparr>"
  let ?sim0 = "?p(target_Xposition := TARGET_xPOSITION_FT + ax,
                  target_Yposition := TARGET_yPOSITION_FT + ay)"
  have anchor: "init_ecef_position ?self' = Some [ax, ay, az]"
    by simp
  have run: "new_episode_init env self sim = Inr (?self', ?sim0)"
    using new_episode_init_eq [of env self sim] assms by simp
  have tx: "?sim0 target_Xposition = 2000 + ax"
    by (simp add: TARGET_xPOSITION_FT_def)
  have ty: "?sim0 target_Yposition = - 8000 + ay"
    by (simp add: TARGET_yPOSITION_FT_def)
  have gx: "get_target_position ?self' ''x'' = Inr (2000 + ax)"
    using get_target_position_Some(1) [OF anchor] by (simp add: TARGET_xPOSITION_FT_def)
  have gy: "get_target_position ?self' ''y'' = Inr (- 8000 + ay)"
    using get_target_position_Some(2) [OF anchor] by (simp add: TARGET_yPOSITION_FT_def)
  have gz: "get_target_position ?self' ''z'' = Inr (0 + az)"
    using get_target_position_Some(3) [OF anchor] by (simp add: TARGET_zPOSITION_FT_def)
  have steps: "\<exists>s'. task_steps ?self' ws ?sim0 = Inr s'
                 \<and> s' target_Xposition = 2000 + ax \<and> s' target_Yposition = - 8000 + ay" for ws
    using task_steps_Some [OF anchor, of ws ?sim0] tx ty by auto
  have conc: "ax = 100 \<and> ay = 200 \<and> az = 300 \<longrightarrow>
               ?sim0 target_Xposition = 2100 \<and> ?sim0 target_Yposition = - 7800
             \<and> get_target_position ?self' ''z'' = Inr 300
             \<and> (\<forall>ws. \<exists>s'. task_steps ?self' ws ?sim0 = Inr s'
                         \<and> s' target_Xposition = 2100 \<and> s' target_Yposition = - 7800)"
  proof (intro impI)
    assume h: "ax = 100 \<and> ay = 200 \<and> az = 300"
    have "\<exists>s'. task_steps ?self' ws ?sim0 = Inr s'
            \<and> s' target_Xposition = 2100 \<and> s' target_Yposition = - 7800" for ws
      using steps [of ws] h by simp
    then show "?sim0 target_Xposition = 2100 \<and> ?sim0 target_Yposition = - 7800
             \<and> get_target_position ?self' ''z'' = Inr 300
             \<and> (\<forall>ws. \<exists>s'. task_steps ?self' ws ?sim0 = Inr s'
                         \<and> s' target_Xposition = 2100 \<and> s' target_Yposition = - 7800)"
      using tx ty gz h by simp
  qed
  from run anchor tx ty gx gy gz steps conc show ?thesis
    by blast
qed

theorem target_position_witness:
  "\<exists>self' sim0.
      new_episode_init demo_env demo_task demo_sim = Inr (self', sim0)
    \<and> init_ecef_position self' = Some [100, 200, 300]
    \<and> sim0 target_Xposition = 2100 \<and> sim0 target_Yposition = - 7800
    \<and> get_target_position self' ''z'' = Inr 300
    \<and> (\<exists>s'. task_steps self'
               [demo_sim(ecef_x_ft := 900, ecef_y_ft := - 3000, ecef_z_ft := 350),
                demo_sim(ecef_x_ft := 1700, ecef_y_ft := - 6000, ecef_z_ft := 280)] sim0 = Inr s'
           \<and> s' target_Xposition = 2100 \<and> s' target_Yposition = - 7800)"
proof -
  from target_position_spec [OF post_init_sim_demo(1) post_init_sim_demo(2) post_init_sim_demo(3)]
  obtain self' sim0 where
    a: "new_episode_init demo_env demo_task demo_sim = Inr (self', sim0)"
    and b: "init_ecef_position self' = Some [100, 200, 300]"
    and c: "(100::real) = 100 \<and> (200::real) = 200 \<and> (300::real) = 300 \<longrightarrow>
               sim0 target_Xposition = 2100 \<and> sim0 target_Yposition = - 7800
             \<and> get_target_position self' ''z'' = Inr 300
             \<and> (\<forall>ws. \<exists>s'. task_steps self' ws sim0 = Inr s'
                         \<and> s' target_Xposition = 2100 \<and> s' target_Yposition = - 7800)"
    by blast
  from c have d: "sim0 target_Xposition = 2100 \<and> sim0 target_Yposition = - 7800
             \<and> get_target_position self' ''z'' = Inr 300
             \<and> (\<forall>ws. \<exists>s'. task_steps self' ws sim0 = Inr s'
                         \<and> s' target_Xposition = 2100 \<and> s' target_Yposition = - 7800)"
    by simp
  from a b d show ?thesis by blast
qed

section \<open>The error properties\<close>

text \<open>
  C6. Once the anchor exists, the update hook succeeds and rewrites both error
  properties from the values the simulation holds at the call: \<^verbatim>\<open>position_error_mt\<close>
  becomes the Euclidean norm of the horizontal offset between the aircraft's
  \<open>(ecef_x, ecef_y)\<close> and the target \<open>(target_Xposition, target_Yposition)\<close>, and
  \<^verbatim>\<open>altitude_error_ft\<close> becomes \<open>ecef_z\<close> minus the z target, with its sign. In a
  step, the values read are those the engine has just produced.
\<close>

theorem update_errors_spec:
  assumes "init_ecef_position self = Some [ax, ay, az]"
  shows "\<exists>sim'.
           update_custom_properties self sim = Inr sim'
         \<and> sim' position_error_mt =
             sqrt ((sim ecef_x_ft - sim target_Xposition)\<^sup>2
                   + (sim ecef_y_ft - sim target_Yposition)\<^sup>2)
         \<and> sim' position_error_mt =
             Norm (vector2_sub (Vector2 (sim ecef_x_ft) (sim ecef_y_ft))
                     (Vector2 (sim target_Xposition) (sim target_Yposition)))
         \<and> get_target_position self ''z'' = Inr (TARGET_zPOSITION_FT + az)
         \<and> sim' altitude_error_ft = sim ecef_z_ft - (TARGET_zPOSITION_FT + az)
         \<and> sim' altitude_error_ft = sim ecef_z_ft - az
         \<and> update_position_error self sim =
             sim(position_error_mt :=
                   sqrt ((sim ecef_x_ft - sim target_Xposition)\<^sup>2
                         + (sim ecef_y_ft - sim target_Yposition)\<^sup>2))
         \<and> update_altitude_error self sim = Inr (sim(altitude_error_ft := sim ecef_z_ft - az))
         \<and> (\<exists>s'. task_steps self [w] sim = Inr s'
                \<and> s' position_error_mt =
                     sqrt ((w ecef_x_ft - sim target_Xposition)\<^sup>2
                           + (w ecef_y_ft - sim target_Yposition)\<^sup>2)
                \<and> s' altitude_error_ft = w ecef_z_ft - az)"
proof -
  let ?e = "sqrt ((sim ecef_x_ft - sim target_Xposition)\<^sup>2
                   + (sim ecef_y_ft - sim target_Yposition)\<^sup>2)"
  let ?sim' = "sim(position_error_mt := ?e,
                   altitude_error_ft := sim ecef_z_ft - (TARGET_zPOSITION_FT + az),
                   steps_left := sim steps_left - 1)"
  have run: "update_custom_properties self sim = Inr ?sim'"
    by (rule update_custom_properties_Some [OF assms])
  have p1: "?sim' position_error_mt = ?e"
    by simp
  have p2: "?sim' position_error_mt =
             Norm (vector2_sub (Vector2 (sim ecef_x_ft) (sim ecef_y_ft))
                     (Vector2 (sim target_Xposition) (sim target_Yposition)))"
    by simp
  have gz: "get_target_position self ''z'' = Inr (TARGET_zPOSITION_FT + az)"
    by (rule get_target_position_Some(3) [OF assms])
  have a1: "?sim' altitude_error_ft = sim ecef_z_ft - (TARGET_zPOSITION_FT + az)"
    by simp
  have a2: "?sim' altitude_error_ft = sim ecef_z_ft - az"
    by (simp add: TARGET_zPOSITION_FT_def)
  have up: "update_position_error self sim = sim(position_error_mt := ?e)"
    by (simp add: update_position_error_def Let_def)
  have ua: "update_altitude_error self sim = Inr (sim(altitude_error_ft := sim ecef_z_ft - az))"
    by (simp add: update_altitude_error_def Let_def gz TARGET_zPOSITION_FT_def)
  have st: "\<exists>s'. task_steps self [w] sim = Inr s'
                \<and> s' position_error_mt =
                     sqrt ((w ecef_x_ft - sim target_Xposition)\<^sup>2
                           + (w ecef_y_ft - sim target_Yposition)\<^sup>2)
                \<and> s' altitude_error_ft = w ecef_z_ft - az"
    by (simp add: update_custom_properties_Some [OF assms] sim_run_declared sim_run_engine
          TARGET_zPOSITION_FT_def)
  from run p1 p2 gz a1 a2 up ua st show ?thesis
    by blast
qed

theorem update_errors_witness:
  "\<exists>sim'.
      update_custom_properties (demo_task\<lparr>init_ecef_position := Some [100, 200, 300]\<rparr>)
        (demo_sim(ecef_x_ft := 2097, ecef_y_ft := - 7796, ecef_z_ft := 250,
                  target_Xposition := 2100, target_Yposition := - 7800)) = Inr sim'
    \<and> sim' position_error_mt = 5
    \<and> sim' altitude_error_ft = - 50"
proof -
  let ?self = "demo_task\<lparr>init_ecef_position := Some [100, 200, 300]\<rparr>"
  let ?sim = "demo_sim(ecef_x_ft := 2097, ecef_y_ft := - 7796, ecef_z_ft := 250,
                  target_Xposition := 2100, target_Yposition := - 7800)"
  have anchor: "init_ecef_position ?self = Some [100, 200, 300]"
    by simp
  have root: "sqrt ((2097 - 2100)\<^sup>2 + (- 7796 - (- 7800))\<^sup>2) = (5::real)"
    by (rule real_sqrt_unique) simp_all
  from update_errors_spec [OF anchor, of ?sim]
  obtain sim' where
    a: "update_custom_properties ?self ?sim = Inr sim'"
    and b: "sim' position_error_mt =
             sqrt ((?sim ecef_x_ft - ?sim target_Xposition)\<^sup>2
                   + (?sim ecef_y_ft - ?sim target_Yposition)\<^sup>2)"
    and c: "sim' altitude_error_ft = ?sim ecef_z_ft - 300"
    by blast
  have "sim' position_error_mt = 5"
    using b root by simp
  moreover have "sim' altitude_error_ft = - 50"
    using c by simp
  ultimately show ?thesis
    using a by blast
qed

section \<open>The initial conditions\<close>

text \<open>
  C7. \<^verbatim>\<open>TrajectoryTask.get_initial_conditions\<close> merges the base initial conditions with
  the eight task-specific ones; on a key that both have, the task-specific value wins,
  and every other key keeps its base value. \<^verbatim>\<open>TurnHeadingControlTask\<close> returns its
  parent's mapping with the initial heading replaced by the random draw and every other
  key as the parent has it.
\<close>

theorem get_initial_conditions_spec:
  "get_initial_conditions self k =
      (case extra_conditions self k of
         Some v \<Rightarrow> Some v
       | None \<Rightarrow> base_initial_conditions self k)
   \<and> dom (get_initial_conditions self) =
       dom (base_initial_conditions self) \<union> dom (extra_conditions self)
   \<and> (k \<in> dom (extra_conditions self) \<longrightarrow>
        get_initial_conditions self k = extra_conditions self k)
   \<and> (k \<notin> dom (extra_conditions self) \<longrightarrow>
        get_initial_conditions self k = base_initial_conditions self k)
   \<and> dom (extra_conditions self) =
       {initial_u_fps, initial_v_fps, initial_w_fps, initial_p_radps, initial_q_radps,
        initial_r_radps, initial_roc_fpm, initial_heading_deg}
   \<and> get_initial_conditions self initial_u_fps =
       Some (get_cruise_speed_fps (task_aircraft self))
   \<and> get_initial_conditions self initial_v_fps = Some 0
   \<and> get_initial_conditions self initial_w_fps = Some 0
   \<and> get_initial_conditions self initial_p_radps = Some 0
   \<and> get_initial_conditions self initial_q_radps = Some 0
   \<and> get_initial_conditions self initial_r_radps = Some 0
   \<and> get_initial_conditions self initial_roc_fpm = Some 0
   \<and> get_initial_conditions self initial_heading_deg = Some INITIAL_HEADING_DEG
   \<and> TurnHeadingControlTask_get_initial_conditions parent heading u initial_heading_deg =
       Some (uniform (min_value heading) (max_value heading) u)
   \<and> (k \<noteq> initial_heading_deg \<longrightarrow>
        TurnHeadingControlTask_get_initial_conditions parent heading u k = parent k)"
proof -
  have merge: "get_initial_conditions self k =
      (case extra_conditions self k of
         Some v \<Rightarrow> Some v
       | None \<Rightarrow> base_initial_conditions self k)"
    by (simp add: get_initial_conditions_def map_add_def split: option.splits)
  have d: "dom (get_initial_conditions self) =
       dom (base_initial_conditions self) \<union> dom (extra_conditions self)"
    by (auto simp: get_initial_conditions_def)
  have inside: "k \<in> dom (extra_conditions self) \<longrightarrow>
        get_initial_conditions self k = extra_conditions self k"
    by (auto simp: merge)
  have outside: "k \<notin> dom (extra_conditions self) \<longrightarrow>
        get_initial_conditions self k = base_initial_conditions self k"
    by (auto simp: merge dom_def)
  have vals:
    "get_initial_conditions self initial_u_fps = Some (get_cruise_speed_fps (task_aircraft self))"
    "get_initial_conditions self initial_v_fps = Some 0"
    "get_initial_conditions self initial_w_fps = Some 0"
    "get_initial_conditions self initial_p_radps = Some 0"
    "get_initial_conditions self initial_q_radps = Some 0"
    "get_initial_conditions self initial_r_radps = Some 0"
    "get_initial_conditions self initial_roc_fpm = Some 0"
    "get_initial_conditions self initial_heading_deg = Some INITIAL_HEADING_DEG"
    by (simp_all add: get_initial_conditions_def extra_conditions_def)
  have turn1: "TurnHeadingControlTask_get_initial_conditions parent heading u initial_heading_deg =
       Some (uniform (min_value heading) (max_value heading) u)"
    by (simp add: TurnHeadingControlTask_get_initial_conditions_def Let_def)
  have turn2: "k \<noteq> initial_heading_deg \<longrightarrow>
        TurnHeadingControlTask_get_initial_conditions parent heading u k = parent k"
    by (simp add: TurnHeadingControlTask_get_initial_conditions_def Let_def)
  from merge d inside outside extra_conditions_dom [of self] vals turn1 turn2
  show ?thesis by blast
qed

theorem get_initial_conditions_witness:
  "initial_heading_deg \<in> dom (extra_conditions demo_task)
   \<and> base_initial_conditions demo_task initial_heading_deg = Some 90
   \<and> get_initial_conditions demo_task initial_heading_deg = Some 270
   \<and> base_initial_conditions demo_task initial_u_fps = Some 1
   \<and> get_initial_conditions demo_task initial_u_fps = Some 200
   \<and> other_property ''ic/h-sl-ft'' \<notin> dom (extra_conditions demo_task)
   \<and> get_initial_conditions demo_task (other_property ''ic/h-sl-ft'') = Some 5000
   \<and> initial_u_fps \<noteq> initial_heading_deg
   \<and> TurnHeadingControlTask_get_initial_conditions (get_initial_conditions demo_task)
        (BoundedProperty ''attitude/psi-deg'' ''heading [deg]'' 0 360) (1 / 4) initial_u_fps
       = Some 200
   \<and> TurnHeadingControlTask_get_initial_conditions (get_initial_conditions demo_task)
        (BoundedProperty ''attitude/psi-deg'' ''heading [deg]'' 0 360) (1 / 4)
        initial_heading_deg = Some 90"
proof -
  let ?hd = "BoundedProperty ''attitude/psi-deg'' ''heading [deg]'' 0 360"
  let ?parent = "get_initial_conditions demo_task"
  note at_heading =
    get_initial_conditions_spec [of demo_task initial_heading_deg ?parent ?hd "1 / 4"]
  note at_speed =
    get_initial_conditions_spec [of demo_task initial_u_fps ?parent ?hd "1 / 4"]
  note at_other =
    get_initial_conditions_spec [of demo_task "other_property ''ic/h-sl-ft''" ?parent ?hd "1 / 4"]
  have base: "base_initial_conditions demo_task = demo_base_initial_conditions"
    by (simp add: demo_task_def)
  have cruise: "get_cruise_speed_fps (task_aircraft demo_task) = 200"
    by (simp add: demo_task_def demo_aircraft_def)
  have b1: "base_initial_conditions demo_task initial_heading_deg = Some 90"
    and b2: "base_initial_conditions demo_task initial_u_fps = Some 1"
    and b3: "base_initial_conditions demo_task (other_property ''ic/h-sl-ft'') = Some 5000"
    by (simp_all add: base demo_base_initial_conditions_def)
  have in_dom: "initial_heading_deg \<in> dom (extra_conditions demo_task)"
    and out_dom: "other_property ''ic/h-sl-ft'' \<notin> dom (extra_conditions demo_task)"
    by (simp_all add: extra_conditions_dom)
  from at_heading
  have h1: "get_initial_conditions demo_task initial_heading_deg = Some INITIAL_HEADING_DEG"
    by blast
  from at_speed
  have h2: "get_initial_conditions demo_task initial_u_fps
              = Some (get_cruise_speed_fps (task_aircraft demo_task))"
    by blast
  from at_other out_dom
  have h3: "get_initial_conditions demo_task (other_property ''ic/h-sl-ft'')
              = base_initial_conditions demo_task (other_property ''ic/h-sl-ft'')"
    by blast
  from at_speed
  have h4: "TurnHeadingControlTask_get_initial_conditions ?parent ?hd (1 / 4) initial_u_fps
              = ?parent initial_u_fps"
    by blast
  from at_heading
  have h5: "TurnHeadingControlTask_get_initial_conditions ?parent ?hd (1 / 4)
              initial_heading_deg = Some (uniform (min_value ?hd) (max_value ?hd) (1 / 4))"
    by blast
  have g1: "get_initial_conditions demo_task initial_heading_deg = Some 270"
    using h1 by (simp add: INITIAL_HEADING_DEG_def)
  have g2: "get_initial_conditions demo_task initial_u_fps = Some 200"
    using h2 cruise by simp
  have g3: "get_initial_conditions demo_task (other_property ''ic/h-sl-ft'') = Some 5000"
    using h3 b3 by simp
  have t1: "TurnHeadingControlTask_get_initial_conditions ?parent ?hd (1 / 4) initial_u_fps
              = Some 200"
    using h4 g2 by simp
  have t2: "TurnHeadingControlTask_get_initial_conditions ?parent ?hd (1 / 4)
              initial_heading_deg = Some 90"
    using h5 by (simp add: uniform_def)
  from in_dom b1 g1 b2 g2 out_dom g3 t1 t2 show ?thesis
    by simp
qed

section \<open>Flags of the target position\<close>

text \<open>
  C8. Once the anchor exists, \<^verbatim>\<open>_get_target_position\<close> returns a value for the flags
  x, y and z and for no other flag. For every other flag string, with or without an
  anchor, it raises \<^verbatim>\<open>ValueError\<close> with the flag in the message; there is no default.
\<close>

theorem get_target_position_spec:
  "(init_ecef_position self = Some [ax, ay, az] \<longrightarrow>
      ((\<exists>v. get_target_position self flag = Inr v)
         \<longleftrightarrow> flag = ''x'' \<or> flag = ''y'' \<or> flag = ''z'')
    \<and> get_target_position self ''x'' = Inr (TARGET_xPOSITION_FT + ax)
    \<and> get_target_position self ''y'' = Inr (TARGET_yPOSITION_FT + ay)
    \<and> get_target_position self ''z'' = Inr (TARGET_zPOSITION_FT + az))
   \<and> (flag \<noteq> ''x'' \<and> flag \<noteq> ''y'' \<and> flag \<noteq> ''z'' \<longrightarrow>
        get_target_position self flag =
          Inl (ValueError (''Unsupported flag in get target position: '' @ flag)))"
proof -
  have other: "get_target_position self flag =
          Inl (ValueError (''Unsupported flag in get target position: '' @ flag))"
    if "flag \<noteq> ''x'' \<and> flag \<noteq> ''y'' \<and> flag \<noteq> ''z''"
    using that by (simp add: get_target_position_def)
  have known: "((\<exists>v. get_target_position self flag = Inr v)
         \<longleftrightarrow> flag = ''x'' \<or> flag = ''y'' \<or> flag = ''z'')
    \<and> get_target_position self ''x'' = Inr (TARGET_xPOSITION_FT + ax)
    \<and> get_target_position self ''y'' = Inr (TARGET_yPOSITION_FT + ay)
    \<and> get_target_position self ''z'' = Inr (TARGET_zPOSITION_FT + az)"
    if h: "init_ecef_position self = Some [ax, ay, az]"
  proof -
    note g = get_target_position_Some [OF h]
    have "(\<exists>v. get_target_position self flag = Inr v)
         \<longleftrightarrow> flag = ''x'' \<or> flag = ''y'' \<or> flag = ''z''"
    proof (cases "flag = ''x'' \<or> flag = ''y'' \<or> flag = ''z''")
      case True
      then show ?thesis using g by auto
    next
      case False
      then show ?thesis using other by simp
    qed
    with g show ?thesis by simp
  qed
  from other known show ?thesis by blast
qed

theorem get_target_position_witness:
  "get_target_position (demo_task\<lparr>init_ecef_position := Some [100, 200, 300]\<rparr>) ''x''
       = Inr 2100
   \<and> get_target_position (demo_task\<lparr>init_ecef_position := Some [100, 200, 300]\<rparr>) ''y''
       = Inr (- 7800)
   \<and> get_target_position (demo_task\<lparr>init_ecef_position := Some [100, 200, 300]\<rparr>) ''z''
       = Inr 300
   \<and> get_target_position (demo_task\<lparr>init_ecef_position := Some [100, 200, 300]\<rparr>) ''w''
       = Inl (ValueError ''Unsupported flag in get target position: w'')
   \<and> get_target_position (demo_task\<lparr>init_ecef_position := Some [100, 200, 300]\<rparr>) ''X''
       = Inl (ValueError ''Unsupported flag in get target position: X'')
   \<and> get_target_position (demo_task\<lparr>init_ecef_position := Some [100, 200, 300]\<rparr>) ''''
       = Inl (ValueError ''Unsupported flag in get target position: '')"
  using get_target_position_spec
          [of "demo_task\<lparr>init_ecef_position := Some [100, 200, 300]\<rparr>" 100 200 300 "''w''"]
        get_target_position_spec
          [of "demo_task\<lparr>init_ecef_position := Some [100, 200, 300]\<rparr>" 100 200 300 "''X''"]
        get_target_position_spec
          [of "demo_task\<lparr>init_ecef_position := Some [100, 200, 300]\<rparr>" 100 200 300 "''''"]
  by (simp add: TARGET_xPOSITION_FT_def TARGET_yPOSITION_FT_def TARGET_zPOSITION_FT_def)

section \<open>Reduction of reflex angles\<close>

text \<open>
  C9, as stated, fails on floats. The claim has the result differ from the input by an
  integer multiple of 360. For the double nearest to \<open>-0.1\<close> the remainder is the
  input itself, the float sum of it and 360 is rounded, and the result is
  \<open>- 879609302221 / 2 ^ 43\<close>, which is \<open>819 / 2 ^ 55\<close> below the input and so no
  integer multiple of 360 away from it.
\<close>

theorem reduce_reflex_angle_deg_counterexample:
  "is_double (- (3602879701896397 / 2 ^ 55))
   \<and> reduce_reflex_angle_deg (- (3602879701896397 / 2 ^ 55)) = - (879609302221 / 2 ^ 43)
   \<and> \<not> (\<exists>k::int. reduce_reflex_angle_deg (- (3602879701896397 / 2 ^ 55))
                      = - (3602879701896397 / 2 ^ 55) + 360 * of_int k)"
proof -
  have "\<not> (\<exists>k::int. reduce_reflex_angle_deg (- (3602879701896397 / 2 ^ 55))
                      = - (3602879701896397 / 2 ^ 55) + 360 * of_int k)"
  proof
    assume "\<exists>k::int. reduce_reflex_angle_deg (- (3602879701896397 / 2 ^ 55))
                      = - (3602879701896397 / 2 ^ 55) + 360 * of_int k"
    then obtain k :: int where
      "- (879609302221 / 2 ^ 43) = - (3602879701896397 / 2 ^ 55) + 360 * real_of_int k"
      by (auto simp only: reduce_reflex_angle_deg_tenth)
    then have e: "360 * real_of_int k = - (819 / 2 ^ 55)"
      by simp
    then have "- 1 < real_of_int k" and "real_of_int k < 1"
      by simp_all
    then have "k = 0" by linarith
    with e show False by simp
  qed
  with is_double_tenth reduce_reflex_angle_deg_tenth show ?thesis
    by blast
qed

text \<open>
  C9, amended. For every finite double, \<^verbatim>\<open>reduce_reflex_angle_deg\<close> returns a value
  above \<open>-180\<close> and at most 180, and reducing a reduced angle changes nothing. The
  result differs from the input by an integer multiple of 360 up to the rounding of
  one float addition, at most \<open>2\<close> to the power \<open>-45\<close>; for an input that is not
  negative it does so exactly.
\<close>

theorem reduce_reflex_angle_deg_spec:
  assumes "is_double angle"
  shows "- 180 < reduce_reflex_angle_deg angle
       \<and> reduce_reflex_angle_deg angle \<le> 180
       \<and> reduce_reflex_angle_deg (reduce_reflex_angle_deg angle) = reduce_reflex_angle_deg angle
       \<and> (\<exists>k::int. \<bar>reduce_reflex_angle_deg angle - (angle + 360 * of_int k)\<bar>
                     \<le> 2 powi (- 45))
       \<and> (0 \<le> angle \<longrightarrow>
             (\<exists>k::int. reduce_reflex_angle_deg angle = angle + 360 * of_int k))"
proof -
  define v where "v = py_mod angle 360"
  note p = py_mod_360 [OF assms, folded v_def]
  show ?thesis
  proof (cases "180 < v")
    case False
    then have r: "reduce_reflex_angle_deg angle = v"
      by (simp add: reduce_reflex_angle_deg_def Let_def v_def)
    have "reduce_reflex_angle_deg v = v"
      using p(1) False by (intro reduce_reflex_angle_deg_small) simp_all
    with r p(1,5,6) False show ?thesis by simp
  next
    case True
    from p(3) [OF True] obtain K where K: "v = of_int K * 2 powi (- 45)" by blast
    have sub: "double_round (v - 360) = v - 360"
      using grid_minus_360 [OF K True p(2)] .
    have stay: "double_round v = v"
      using p(3) [OF True] p(4) p(1,2) by (intro grid_fixed) simp_all
    have r: "reduce_reflex_angle_deg angle = v - 360"
      using True sub by (simp add: reduce_reflex_angle_deg_def Let_def v_def)
    have idem: "reduce_reflex_angle_deg (v - 360) = v - 360"
    proof (cases "v = 360")
      case True
      then show ?thesis using reduce_reflex_angle_deg_small [of 0] by simp
    next
      case False
      with p(2) have "v < 360" by simp
      from reduce_reflex_angle_deg_shifted [OF True this stay sub] show ?thesis .
    qed
    from p(5) obtain k :: int where "\<bar>v - (angle + 360 * of_int k)\<bar> \<le> 2 powi (- 45)"
      by blast
    then have "\<bar>(v - 360) - (angle + 360 * of_int (k - 1))\<bar> \<le> 2 powi (- 45)"
      by (simp add: algebra_simps)
    then have near: "\<exists>k::int. \<bar>(v - 360) - (angle + 360 * of_int k)\<bar> \<le> 2 powi (- 45)"
      by blast
    have exact: "\<exists>k::int. v - 360 = angle + 360 * of_int k" if "0 \<le> angle"
    proof -
      from p(6) [OF that] obtain k :: int where "v = angle + 360 * of_int k" by blast
      then have "v - 360 = angle + 360 * of_int (k - 1)" by simp
      then show ?thesis by blast
    qed
    from True p(2) idem near exact show ?thesis
      unfolding r by auto
  qed
qed

theorem reduce_reflex_angle_deg_witness:
  "is_double (- (3602879701896397 / 2 ^ 55))
   \<and> - 180 < (- (879609302221 / 2 ^ 43) :: real)
   \<and> (- (879609302221 / 2 ^ 43) :: real) \<le> 180
   \<and> reduce_reflex_angle_deg (- (879609302221 / 2 ^ 43)) = - (879609302221 / 2 ^ 43)
   \<and> is_double 541
   \<and> reduce_reflex_angle_deg 541 = - 179
   \<and> reduce_reflex_angle_deg (- 179) = - 179
   \<and> is_double (- (1 / 2 ^ 60))
   \<and> reduce_reflex_angle_deg (- (1 / 2 ^ 60)) = 0"
proof -
  from reduce_reflex_angle_deg_spec [OF is_double_tenth]
  have a: "- 180 < (- (879609302221 / 2 ^ 43) :: real)
         \<and> (- (879609302221 / 2 ^ 43) :: real) \<le> 180
         \<and> reduce_reflex_angle_deg (- (879609302221 / 2 ^ 43)) = - (879609302221 / 2 ^ 43)"
    by (simp only: reduce_reflex_angle_deg_tenth)
  from reduce_reflex_angle_deg_spec [OF is_double_541]
  have b: "reduce_reflex_angle_deg (- 179) = - 179"
    by (simp only: reduce_reflex_angle_deg_541)
  from a b is_double_tenth is_double_541 reduce_reflex_angle_deg_541 is_double_tiny
    reduce_reflex_angle_deg_tiny
  show ?thesis by blast
qed

section \<open>The random initial heading\<close>

text \<open>
  C10. For every draw \<open>u\<close> of \<^verbatim>\<open>random()\<close>, that is \<open>0 \<le> u < 1\<close>, and a heading
  property whose minimum is not above its maximum,
  \<^verbatim>\<open>TurnHeadingControlTask.get_initial_conditions\<close> agrees with the parent's mapping on
  every key other than the initial heading, and the initial heading it assigns lies
  between the minimum and the maximum of the heading property, both included.
\<close>

theorem turn_heading_spec:
  assumes "0 \<le> u" and "u < 1" and "min_value heading \<le> max_value heading"
  shows "(\<forall>k. k \<noteq> initial_heading_deg \<longrightarrow>
            TurnHeadingControlTask_get_initial_conditions parent heading u k = parent k)
       \<and> (\<exists>v. TurnHeadingControlTask_get_initial_conditions parent heading u
                 initial_heading_deg = Some v
              \<and> min_value heading \<le> v \<and> v \<le> max_value heading)"
proof -
  let ?a = "min_value heading" and ?b = "max_value heading"
  have frame: "\<forall>k. k \<noteq> initial_heading_deg \<longrightarrow>
            TurnHeadingControlTask_get_initial_conditions parent heading u k = parent k"
    by (simp add: TurnHeadingControlTask_get_initial_conditions_def Let_def)
  have val: "TurnHeadingControlTask_get_initial_conditions parent heading u initial_heading_deg
               = Some (uniform ?a ?b u)"
    by (simp add: TurnHeadingControlTask_get_initial_conditions_def Let_def)
  have d: "0 \<le> ?b - ?a" using assms(3) by simp
  have lo: "0 \<le> (?b - ?a) * u"
    using d assms(1) by (rule mult_nonneg_nonneg)
  have hi: "(?b - ?a) * u \<le> ?b - ?a"
    using d assms(2) by (intro mult_left_le) simp_all
  have "?a \<le> uniform ?a ?b u" using lo by (simp add: uniform_def)
  moreover have "uniform ?a ?b u \<le> ?b" using hi by (simp add: uniform_def)
  ultimately show ?thesis using frame val by blast
qed

theorem turn_heading_witness:
  "(0::real) \<le> 3 / 4 \<and> (3::real) / 4 < 1
   \<and> min_value (BoundedProperty ''attitude/psi-deg'' ''heading [deg]'' 0 360)
        \<le> max_value (BoundedProperty ''attitude/psi-deg'' ''heading [deg]'' 0 360)
   \<and> TurnHeadingControlTask_get_initial_conditions demo_base_initial_conditions
        (BoundedProperty ''attitude/psi-deg'' ''heading [deg]'' 0 360) (3 / 4) initial_u_fps
       = Some 1
   \<and> (\<exists>v. TurnHeadingControlTask_get_initial_conditions demo_base_initial_conditions
              (BoundedProperty ''attitude/psi-deg'' ''heading [deg]'' 0 360) (3 / 4)
              initial_heading_deg = Some v
          \<and> 0 \<le> v \<and> v \<le> 360)"
proof -
  let ?hd = "BoundedProperty ''attitude/psi-deg'' ''heading [deg]'' 0 360"
  have h1: "(0::real) \<le> 3 / 4" and h2: "(3::real) / 4 < 1"
    and h3: "min_value ?hd \<le> max_value ?hd"
    by simp_all
  note t = turn_heading_spec [OF h1 h2 h3, of demo_base_initial_conditions]
  from t have "TurnHeadingControlTask_get_initial_conditions demo_base_initial_conditions
                 ?hd (3 / 4) initial_u_fps = demo_base_initial_conditions initial_u_fps"
    by simp
  then have f: "TurnHeadingControlTask_get_initial_conditions demo_base_initial_conditions
                 ?hd (3 / 4) initial_u_fps = Some 1"
    by (simp add: demo_base_initial_conditions_def)
  from t have v: "\<exists>v. TurnHeadingControlTask_get_initial_conditions
                        demo_base_initial_conditions ?hd (3 / 4) initial_heading_deg = Some v
                    \<and> 0 \<le> v \<and> v \<le> 360"
    by simp
  from h1 h2 h3 f v show ?thesis by blast
qed

end
